theory Spec2Isabelle
  imports Main
begin

section \<open>Text and the string helpers of the Go standard library\<close>

text \<open>
  A Go string that holds valid UTF-8 is modelled as the list of its code points
  (what \<^verbatim>\<open>[]rune(line)\<close> yields); a code point is a natural number.  Names, paths,
  driver ids and DSNs are only compared and concatenated, so they stay \<^typ>\<open>string\<close>.
\<close>

type_synonym rune = nat
type_synonym gostring = "rune list"

definition runes :: "string \<Rightarrow> gostring" where
  "runes s = map of_char s"

text \<open>\<^verbatim>\<open>unicode.IsSpace\<close>: the Latin-1 spaces and the code points with the Unicode
  White_Space property.\<close>

definition isSpace :: "rune \<Rightarrow> bool" where
  "isSpace r \<longleftrightarrow>
     r = 9 \<or> r = 10 \<or> r = 11 \<or> r = 12 \<or> r = 13 \<or> r = 32 \<or> r = 133 \<or> r = 160 \<or>
     r = 5760 \<or> (8192 \<le> r \<and> r \<le> 8202) \<or> r = 8232 \<or> r = 8233 \<or> r = 8239 \<or>
     r = 8287 \<or> r = 12288"

text \<open>\<^verbatim>\<open>strings.TrimSpace\<close>: leading and trailing white space removed.\<close>

definition TrimSpace :: "gostring \<Rightarrow> gostring" where
  "TrimSpace s = rev (dropWhile isSpace (rev (dropWhile isSpace s)))"

text \<open>\<^verbatim>\<open>strings.Split(s, sep)\<close> for a separator of one code point: the pieces between
  the separators, one piece (the empty one) for the empty string.\<close>

fun Split :: "gostring \<Rightarrow> rune \<Rightarrow> gostring list" where
  "Split [] sep = [[]]"
| "Split (c # cs) sep =
     (if c = sep then [] # Split cs sep
      else (case Split cs sep of
              p # ps \<Rightarrow> (c # p) # ps
            | [] \<Rightarrow> [[c]]))"

text \<open>\<^verbatim>\<open>strings.HasPrefix(s, prefix)\<close>.\<close>

definition HasPrefix :: "gostring \<Rightarrow> gostring \<Rightarrow> bool" where
  "HasPrefix s p \<longleftrightarrow> take (length p) s = p"

section \<open>The statement splitter (migration.go)\<close>

text \<open>The local variables of \<^verbatim>\<open>splitSQLStatements\<close> that live across the loops.\<close>

record scanner =
  statements :: "gostring list"
  currentStatement :: gostring
  inQuotes :: bool
  quoteChar :: rune

definition scanner_init :: scanner where
  "scanner_init = \<lparr>statements = [], currentStatement = [], inQuotes = False, quoteChar = 0\<rparr>"

text \<open>
  The inner loop \<^verbatim>\<open>for i := 0; i < len(runes); i++\<close>, as a recursion over the runes
  from index \<open>i\<close> on.  The look-ahead \<^verbatim>\<open>i+1 < len(runes) && runes[i+1] == quoteChar\<close>
  is the head of the rest, and \<^verbatim>\<open>i++\<close> in the escaped-quote branch drops it.
  Code points: 39 is the single quote, 34 the double quote, 59 the semicolon.
\<close>

fun scan_runes :: "gostring \<Rightarrow> scanner \<Rightarrow> scanner" where
  "scan_runes [] st = st"
| "scan_runes (char # rest) st =
     (if \<not> inQuotes st \<and> (char = 39 \<or> char = 34) then
        scan_runes rest
          (st\<lparr>inQuotes := True, quoteChar := char,
              currentStatement := currentStatement st @ [char]\<rparr>)
      else if inQuotes st \<and> char = quoteChar st then
        (case rest of
           next # rest' \<Rightarrow>
             if next = quoteChar st then
               scan_runes rest' (st\<lparr>currentStatement := currentStatement st @ [char, char]\<rparr>)
             else
               scan_runes rest
                 (st\<lparr>inQuotes := False, currentStatement := currentStatement st @ [char]\<rparr>)
         | [] \<Rightarrow>
             scan_runes rest
               (st\<lparr>inQuotes := False, currentStatement := currentStatement st @ [char]\<rparr>))
      else if \<not> inQuotes st \<and> char = 59 then
        (let statement = TrimSpace (currentStatement st) in
         scan_runes rest
           (st\<lparr>statements := (if statement \<noteq> [] then statements st @ [statement]
                               else statements st),
               currentStatement := []\<rparr>))
      else
        scan_runes rest (st\<lparr>currentStatement := currentStatement st @ [char]\<rparr>))"

text \<open>The body of \<^verbatim>\<open>for _, line := range lines\<close>: comment lines (\<^verbatim>\<open>--\<close>, \<^verbatim>\<open>#\<close>,
  \<^verbatim>\<open>/*\<close>) and blank lines are skipped, a newline (10) is written after a line that leaves
  the builder non-empty.\<close>

definition scan_line :: "scanner \<Rightarrow> gostring \<Rightarrow> scanner" where
  "scan_line st raw =
     (let line = TrimSpace raw in
      if HasPrefix line (runes ''--'') \<or> HasPrefix line (runes ''#'') then st
      else if HasPrefix line (runes ''/*'') then st
      else if line = [] then st
      else
        (let st' = scan_runes line st in
         if currentStatement st' \<noteq> []
         then st'\<lparr>currentStatement := currentStatement st' @ [10]\<rparr>
         else st'))"

definition splitSQLStatements :: "gostring \<Rightarrow> gostring list" where
  "splitSQLStatements sqlContent =
     (let st = foldl scan_line scanner_init (Split sqlContent 10) in
      if currentStatement st \<noteq> [] then
        (let statement = TrimSpace (currentStatement st) in
         if statement \<noteq> [] then statements st @ [statement] else statements st)
      else statements st)"

section \<open>The plain splitter (the second \<^verbatim>\<open>splitSQLStatements\<close>)\<close>



section \<open>The connection manager (manager.go)\<close>

text \<open>
  A client (\<^verbatim>\<open>*gorm.DB\<close>) is a pointer: \<open>None\<close> is \<^verbatim>\<open>nil\<close>, \<open>Some d\<close> the client with
  identity \<open>d\<close>.  The database library, the file system and the connection factories are
  outside the repository.  Every call into them is appended to a trace of events, and the
  result of a call is a function of the trace so far and of the arguments, so that a
  collaborator may answer differently each time it is asked.
\<close>

type_synonym db = nat

datatype ext_error = ExtError string

datatype event =
    FactoryCalled string string
  | FileRead string
  | TxBegin db
  | TxCommit db
  | TxRollback db
  | Exec db gostring
  | RawScan db gostring
  | SqlDBOf db
  | SqlClose db

type_synonym world = "event list"

text \<open>
  The errors built with \<^verbatim>\<open>fmt.Errorf\<close>, one constructor for each format string, with the
  formatted arguments as fields; \<open>External\<close> is an error of a collaborator returned as it is,
  \<open>NilPointerPanic\<close> the panic of a method call on a \<^verbatim>\<open>nil\<close> client.
\<close>

datatype error =
    ConfigNotFound string
  | FactoryNotFound string
  | ConnectionNotFound string
  | NotEstablished
  | External ext_error
  | GetConnectionFailed error
  | UnsupportedDriver string
  | FileReadError string ext_error
  | EmptyFile string
  | NoStatements string
  | StatementFailed nat string ext_error gostring
  | Wrapped string ext_error
  | TableFailed string gostring ext_error
  | NilPointerPanic

type_synonym connectionFn = "world \<Rightarrow> string \<Rightarrow> ext_error + db option"

record connDsn =
  DriverName :: string
  Dsn :: string

text \<open>The two mutexes of the struct have no effect on a single caller and are left out.\<close>

record ConnectionManager =
  connConfigs :: "string \<rightharpoonup> connDsn"
  connectionFns :: "string \<rightharpoonup> connectionFn"
  connections :: "string \<rightharpoonup> db option"
  executedMigrations :: "string set"

text \<open>What the collaborators answer: \<^verbatim>\<open>os.ReadFile\<close>, \<^verbatim>\<open>Exec(..).Error\<close>,
  \<^verbatim>\<open>Raw(..).Scan(&tables).Error\<close> with the scanned names, the begin and the commit of a
  transaction, \<^verbatim>\<open>conn.DB()\<close> and \<^verbatim>\<open>sqlDB.Close()\<close>.\<close>

record env =
  readFile :: "world \<Rightarrow> string \<Rightarrow> ext_error + gostring"
  execErr :: "world \<Rightarrow> db \<Rightarrow> gostring \<Rightarrow> ext_error option"
  rawScan :: "world \<Rightarrow> db \<Rightarrow> gostring \<Rightarrow> ext_error + gostring list"
  beginErr :: "world \<Rightarrow> db \<Rightarrow> ext_error option"
  commitErr :: "world \<Rightarrow> db \<Rightarrow> ext_error option"
  sqlDBErr :: "world \<Rightarrow> db \<Rightarrow> ext_error option"
  closeErr :: "world \<Rightarrow> db \<Rightarrow> ext_error option"

definition NewConnectionManager :: ConnectionManager where
  "NewConnectionManager =
     \<lparr>connConfigs = Map.empty, connectionFns = Map.empty, connections = Map.empty,
      executedMigrations = {}\<rparr>"

definition AddConnectionFunc :: "ConnectionManager \<Rightarrow> string \<Rightarrow> connectionFn \<Rightarrow> ConnectionManager" where
  "AddConnectionFunc m driverName f = m\<lparr>connectionFns := (connectionFns m)(driverName \<mapsto> f)\<rparr>"

definition SetDsn :: "ConnectionManager \<Rightarrow> string \<Rightarrow> string \<Rightarrow> string \<Rightarrow> ConnectionManager" where
  "SetDsn m name driverName dsn =
     m\<lparr>connConfigs := (connConfigs m)(name \<mapsto> \<lparr>DriverName = driverName, Dsn = dsn\<rparr>)\<rparr>"

text \<open>\<^verbatim>\<open>GetConnection\<close>: the second look-up of \<^verbatim>\<open>m.connections[name]\<close> is the re-check
  under the write lock.\<close>

definition GetConnection ::
  "ConnectionManager \<Rightarrow> world \<Rightarrow> string \<Rightarrow> (error + db option) \<times> ConnectionManager \<times> world" where
  "GetConnection m w name =
     (case connConfigs m name of
        None \<Rightarrow> (Inl (ConfigNotFound name), m, w)
      | Some config \<Rightarrow>
          (case connectionFns m (DriverName config) of
             None \<Rightarrow> (Inl (FactoryNotFound (DriverName config)), m, w)
           | Some connFn \<Rightarrow>
               (case connections m name of
                  Some conn \<Rightarrow> (Inr conn, m, w)
                | None \<Rightarrow>
                    (case connections m name of
                       Some conn \<Rightarrow> (Inr conn, m, w)
                     | None \<Rightarrow>
                         (case connFn w (Dsn config) of
                            Inl err \<Rightarrow>
                              (Inl (External err), m,
                               w @ [FactoryCalled (DriverName config) (Dsn config)])
                          | Inr conn \<Rightarrow>
                              (Inr conn, m\<lparr>connections := (connections m)(name \<mapsto> conn)\<rparr>,
                               w @ [FactoryCalled (DriverName config) (Dsn config)]))))))"

definition Close ::
  "env \<Rightarrow> ConnectionManager \<Rightarrow> world \<Rightarrow> string \<Rightarrow> error option \<times> ConnectionManager \<times> world" where
  "Close e m w name =
     (case connections m name of
        None \<Rightarrow> (Some (ConnectionNotFound name), m, w)
      | Some None \<Rightarrow> (Some NotEstablished, m, w)
      | Some (Some conn) \<Rightarrow>
          (case sqlDBErr e w conn of
             Some err \<Rightarrow> (Some (External err), m, w @ [SqlDBOf conn])
           | None \<Rightarrow>
               (case closeErr e (w @ [SqlDBOf conn]) conn of
                  Some err \<Rightarrow> (Some (External err), m, w @ [SqlDBOf conn, SqlClose conn])
                | None \<Rightarrow>
                    (None, m\<lparr>connections := (connections m)(name := None)\<rparr>,
                     w @ [SqlDBOf conn, SqlClose conn]))))"

text \<open>The loop of \<^verbatim>\<open>CloseAll\<close> over the cached clients.  Go leaves the order of a
  \<^verbatim>\<open>range\<close> over a map open, so the order is an argument: the keys of
  \<^verbatim>\<open>m.connections\<close> as the loop visits them.\<close>

fun CloseAll_loop :: "env \<Rightarrow> db option list \<Rightarrow> world \<Rightarrow> error option \<times> world" where
  "CloseAll_loop e [] w = (None, w)"
| "CloseAll_loop e (None # conns) w = CloseAll_loop e conns w"
| "CloseAll_loop e (Some conn # conns) w =
     (case sqlDBErr e w conn of
        Some err \<Rightarrow> (Some (External err), w @ [SqlDBOf conn])
      | None \<Rightarrow>
          (case closeErr e (w @ [SqlDBOf conn]) conn of
             Some err \<Rightarrow> (Some (External err), w @ [SqlDBOf conn, SqlClose conn])
           | None \<Rightarrow> CloseAll_loop e conns (w @ [SqlDBOf conn, SqlClose conn])))"

definition CloseAll ::
  "env \<Rightarrow> string list \<Rightarrow> ConnectionManager \<Rightarrow> world \<Rightarrow> error option \<times> ConnectionManager \<times> world" where
  "CloseAll e order m w =
     (case CloseAll_loop e (List.map_filter (connections m) order) w of
        (Some err, w') \<Rightarrow> (Some err, m, w')
      | (None, w') \<Rightarrow> (None, m\<lparr>connections := Map.empty\<rparr>, w'))"

text \<open>The closure passed to \<^verbatim>\<open>db.Transaction\<close> in \<^verbatim>\<open>RunMigration\<close>: the loop over the
  statements with the index \<open>i\<close>.\<close>

fun exec_statements ::
  "env \<Rightarrow> db \<Rightarrow> string \<Rightarrow> gostring list \<Rightarrow> nat \<Rightarrow> world \<Rightarrow> error option \<times> world" where
  "exec_statements e tx filePath [] i w = (None, w)"
| "exec_statements e tx filePath (s # ss) i w =
     (let statement = TrimSpace s in
      if statement = [] then exec_statements e tx filePath ss (i + 1) w
      else
        (case execErr e w tx statement of
           Some err \<Rightarrow> (Some (StatementFailed (i + 1) filePath err statement), w @ [Exec tx statement])
         | None \<Rightarrow> exec_statements e tx filePath ss (i + 1) (w @ [Exec tx statement])))"

text \<open>\<^verbatim>\<open>(*gorm.DB).Transaction\<close> of the database library: begin, run the closure, roll back
  when it returns an error and return that error, commit otherwise.\<close>

definition Transaction ::
  "env \<Rightarrow> db \<Rightarrow> (world \<Rightarrow> error option \<times> world) \<Rightarrow> world \<Rightarrow> error option \<times> world" where
  "Transaction e d fc w =
     (case beginErr e w d of
        Some err \<Rightarrow> (Some (External err), w @ [TxBegin d])
      | None \<Rightarrow>
          (case fc (w @ [TxBegin d]) of
             (Some err, w') \<Rightarrow> (Some err, w' @ [TxRollback d])
           | (None, w') \<Rightarrow> (map_option External (commitErr e w' d), w' @ [TxCommit d])))"

definition RunMigration ::
  "env \<Rightarrow> ConnectionManager \<Rightarrow> world \<Rightarrow> string \<Rightarrow> string \<Rightarrow> error option \<times> ConnectionManager \<times> world" where
  "RunMigration e m w name filePath =
     (case GetConnection m w name of
        (Inl err, m', w') \<Rightarrow> (Some (GetConnectionFailed err), m', w')
      | (Inr db, m', w') \<Rightarrow>
          (case readFile e w' filePath of
             Inl err \<Rightarrow> (Some (FileReadError filePath err), m', w' @ [FileRead filePath])
           | Inr sqlContent \<Rightarrow>
               (let sqlString = TrimSpace sqlContent in
                if sqlString = [] then (Some (EmptyFile filePath), m', w' @ [FileRead filePath])
                else
                  (let stmts = splitSQLStatements sqlString in
                   if length stmts = 0 then (Some (NoStatements filePath), m', w' @ [FileRead filePath])
                   else
                     (case db of
                        None \<Rightarrow> (Some NilPointerPanic, m', w' @ [FileRead filePath])
                      | Some d \<Rightarrow>
                          (case Transaction e d (exec_statements e d filePath stmts 0)
                                  (w' @ [FileRead filePath]) of
                             (r, w'') \<Rightarrow> (r, m', w'')))))))"

text \<open>\<^verbatim>\<open>fmt.Sprintf("%s:%s", name, filePath)\<close>.\<close>

definition migrationKey :: "string \<Rightarrow> string \<Rightarrow> string" where
  "migrationKey name filePath = name @ '':'' @ filePath"

text \<open>\<^verbatim>\<open>RunMigrationOnce\<close>: the check under the read lock, the re-check under the write
  lock, then the migration.\<close>

definition RunMigrationOnce ::
  "env \<Rightarrow> ConnectionManager \<Rightarrow> world \<Rightarrow> string \<Rightarrow> string \<Rightarrow> error option \<times> ConnectionManager \<times> world" where
  "RunMigrationOnce e m w name filePath =
     (if migrationKey name filePath \<in> executedMigrations m then (None, m, w)
      else if migrationKey name filePath \<in> executedMigrations m then (None, m, w)
      else
        (case RunMigration e m w name filePath of
           (Some err, m', w') \<Rightarrow> (Some err, m', w')
         | (None, m', w') \<Rightarrow>
             (None,
              m'\<lparr>executedMigrations := insert (migrationKey name filePath) (executedMigrations m')\<rparr>,
              w')))"

section \<open>The dialect table operations (flush.go and the drop operations)\<close>

text \<open>
  The six functions have one shape and differ in their SQL and in the wording of their
  errors; \<open>dialect\<close> holds what differs.  \<open>Wrapped msg err\<close> is
  \<^verbatim>\<open>fmt.Errorf(msg + ": %w", err)\<close>, and \<open>TableFailed verb table err\<close> is
  \<^verbatim>\<open>fmt.Errorf("failed to " + verb + " table %s: %w", table, err)\<close>.
\<close>

record dialect =
  disableStmt :: gostring
  disableMsg :: string
  tablesQuery :: gostring
  tableStmt :: "gostring \<Rightarrow> gostring"
  tableVerb :: string
  enableStmt :: gostring
  enableMsg :: string

text \<open>\<^verbatim>\<open>for _, table := range tables\<close>.\<close>

fun table_loop ::
  "env \<Rightarrow> db \<Rightarrow> dialect \<Rightarrow> gostring list \<Rightarrow> world \<Rightarrow> error option \<times> world" where
  "table_loop e d c [] w = (None, w)"
| "table_loop e d c (table # tables) w =
     (case execErr e w d (tableStmt c table) of
        Some err \<Rightarrow> (Some (TableFailed (tableVerb c) table err), w @ [Exec d (tableStmt c table)])
      | None \<Rightarrow> table_loop e d c tables (w @ [Exec d (tableStmt c table)]))"

definition table_operation :: "env \<Rightarrow> dialect \<Rightarrow> db option \<Rightarrow> world \<Rightarrow> error option \<times> world" where
  "table_operation e c db w =
     (case db of
        None \<Rightarrow> (Some NilPointerPanic, w)
      | Some d \<Rightarrow>
          (case execErr e w d (disableStmt c) of
             Some err \<Rightarrow> (Some (Wrapped (disableMsg c) err), w @ [Exec d (disableStmt c)])
           | None \<Rightarrow>
               (case rawScan e (w @ [Exec d (disableStmt c)]) d (tablesQuery c) of
                  Inl err \<Rightarrow>
                    (Some (Wrapped ''failed to get table names'' err),
                     w @ [Exec d (disableStmt c), RawScan d (tablesQuery c)])
                | Inr tables \<Rightarrow>
                    (case table_loop e d c tables
                            (w @ [Exec d (disableStmt c), RawScan d (tablesQuery c)]) of
                       (Some err, w') \<Rightarrow> (Some err, w')
                     | (None, w') \<Rightarrow>
                         (case execErr e w' d (enableStmt c) of
                            Some err \<Rightarrow>
                              (Some (Wrapped (enableMsg c) err), w' @ [Exec d (enableStmt c)])
                          | None \<Rightarrow> (None, w' @ [Exec d (enableStmt c)]))))))"

definition sqlite_tables_query :: gostring where
  "sqlite_tables_query =
     runes ''SELECT name FROM sqlite_master WHERE type='table' AND name NOT LIKE 'sqlite_%'' @ [39]"

definition postgres_tables_query :: gostring where
  "postgres_tables_query = runes ''SELECT tablename FROM pg_tables WHERE schemaname = 'public'' @ [39]"

definition postgres_disable :: gostring where
  "postgres_disable = runes ''SET session_replication_role = 'replica'' @ [39]"

definition postgres_enable :: gostring where
  "postgres_enable = runes ''SET session_replication_role = 'origin'' @ [39]"

definition FlushSQLite :: dialect where
  "FlushSQLite =
     \<lparr>disableStmt = runes ''PRAGMA foreign_keys = OFF'',
      disableMsg = ''failed to disable foreign keys'',
      tablesQuery = sqlite_tables_query,
      tableStmt = (\<lambda>table. runes ''DELETE FROM '' @ table),
      tableVerb = ''flush'',
      enableStmt = runes ''PRAGMA foreign_keys = ON'',
      enableMsg = ''failed to re-enable foreign keys''\<rparr>"

definition FlushMySQL :: dialect where
  "FlushMySQL =
     \<lparr>disableStmt = runes ''SET FOREIGN_KEY_CHECKS = 0'',
      disableMsg = ''failed to disable foreign key checks'',
      tablesQuery = runes ''SHOW TABLES'',
      tableStmt = (\<lambda>table. runes ''TRUNCATE TABLE '' @ table),
      tableVerb = ''flush'',
      enableStmt = runes ''SET FOREIGN_KEY_CHECKS = 1'',
      enableMsg = ''failed to re-enable foreign key checks''\<rparr>"

definition FlushPostgres :: dialect where
  "FlushPostgres =
     \<lparr>disableStmt = postgres_disable,
      disableMsg = ''failed to disable triggers'',
      tablesQuery = postgres_tables_query,
      tableStmt = (\<lambda>table. runes ''TRUNCATE TABLE '' @ table @ runes '' CASCADE''),
      tableVerb = ''flush'',
      enableStmt = postgres_enable,
      enableMsg = ''failed to re-enable triggers''\<rparr>"

definition DropSQLite :: dialect where
  "DropSQLite =
     \<lparr>disableStmt = runes ''PRAGMA foreign_keys = OFF'',
      disableMsg = ''failed to disable foreign keys'',
      tablesQuery = sqlite_tables_query,
      tableStmt = (\<lambda>table. runes ''DROP TABLE IF EXISTS '' @ table),
      tableVerb = ''drop'',
      enableStmt = runes ''PRAGMA foreign_keys = ON'',
      enableMsg = ''failed to re-enable foreign keys''\<rparr>"

definition DropMySQL :: dialect where
  "DropMySQL =
     \<lparr>disableStmt = runes ''SET FOREIGN_KEY_CHECKS = 0'',
      disableMsg = ''failed to disable foreign key checks'',
      tablesQuery = runes ''SHOW TABLES'',
      tableStmt = (\<lambda>table. runes ''DROP TABLE IF EXISTS '' @ table),
      tableVerb = ''drop'',
      enableStmt = runes ''SET FOREIGN_KEY_CHECKS = 1'',
      enableMsg = ''failed to re-enable foreign key checks''\<rparr>"

definition DropPostgres :: dialect where
  "DropPostgres =
     \<lparr>disableStmt = postgres_disable,
      disableMsg = ''failed to disable triggers'',
      tablesQuery = postgres_tables_query,
      tableStmt = (\<lambda>table. runes ''DROP TABLE IF EXISTS '' @ table @ runes '' CASCADE''),
      tableVerb = ''drop'',
      enableStmt = postgres_enable,
      enableMsg = ''failed to re-enable triggers''\<rparr>"

definition FlushSQLiteTables :: "env \<Rightarrow> db option \<Rightarrow> world \<Rightarrow> error option \<times> world" where
  "FlushSQLiteTables e db w = table_operation e FlushSQLite db w"

definition FlushMySQLTables :: "env \<Rightarrow> db option \<Rightarrow> world \<Rightarrow> error option \<times> world" where
  "FlushMySQLTables e db w = table_operation e FlushMySQL db w"

definition FlushPostgresTables :: "env \<Rightarrow> db option \<Rightarrow> world \<Rightarrow> error option \<times> world" where
  "FlushPostgresTables e db w = table_operation e FlushPostgres db w"

definition DropSQLiteTables :: "env \<Rightarrow> db option \<Rightarrow> world \<Rightarrow> error option \<times> world" where
  "DropSQLiteTables e db w = table_operation e DropSQLite db w"

definition DropMySQLTables :: "env \<Rightarrow> db option \<Rightarrow> world \<Rightarrow> error option \<times> world" where
  "DropMySQLTables e db w = table_operation e DropMySQL db w"

definition DropPostgresTables :: "env \<Rightarrow> db option \<Rightarrow> world \<Rightarrow> error option \<times> world" where
  "DropPostgresTables e db w = table_operation e DropPostgres db w"

text \<open>Each operation with the dialect it runs.\<close>

definition dialect_operations ::
  "((env \<Rightarrow> db option \<Rightarrow> world \<Rightarrow> error option \<times> world) \<times> dialect) list" where
  "dialect_operations =
     [(FlushSQLiteTables, FlushSQLite), (FlushMySQLTables, FlushMySQL),
      (FlushPostgresTables, FlushPostgres), (DropSQLiteTables, DropSQLite),
      (DropMySQLTables, DropMySQL), (DropPostgresTables, DropPostgres)]"

section \<open>The splitter's contract\<close>

text \<open>
  The contract of the splitter, written from its description and not from its loops:
  the lines whose trimmed content starts with a comment marker and the blank lines are
  dropped, the lines that stay are trimmed and each is followed by a newline; statement
  boundaries are the semicolons outside single- or double-quoted literals, where a doubled
  quote inside a literal is an escaped quote; every piece is trimmed and the empty ones
  are dropped.
\<close>

definition comment_line :: "gostring \<Rightarrow> bool" where
  "comment_line l \<longleftrightarrow>
     HasPrefix l (runes ''--'') \<or> HasPrefix l (runes ''#'') \<or> HasPrefix l (runes ''/*'')"

definition kept_lines :: "gostring \<Rightarrow> gostring list" where
  "kept_lines t = filter (\<lambda>l. l \<noteq> [] \<and> \<not> comment_line l) (map TrimSpace (Split t 10))"

definition kept_text :: "gostring \<Rightarrow> gostring" where
  "kept_text t = concat (map (\<lambda>l. l @ [10]) (kept_lines t))"

text \<open>\<open>push c ps\<close> puts \<open>c\<close> in front of the first piece.\<close>

definition push :: "rune \<Rightarrow> gostring list \<Rightarrow> gostring list" where
  "push c ps = (case ps of p # ps' \<Rightarrow> (c # p) # ps' | [] \<Rightarrow> [[c]])"

text \<open>\<open>pieces inq q u\<close>: the pieces of \<open>u\<close> between its semicolons outside quoted
  literals, for a text that starts inside a literal opened by \<open>q\<close> when \<open>inq\<close> holds and
  outside any literal otherwise.  A new piece starts only at a semicolon read outside a
  literal.\<close>

fun pieces :: "bool \<Rightarrow> rune \<Rightarrow> gostring \<Rightarrow> gostring list" where
  "pieces inq q [] = [[]]"
| "pieces inq q (c # cs) =
     (if inq then
        (if c = q then
           (case cs of
              d # ds \<Rightarrow> if d = q then push c (push d (pieces True q ds))
                        else push c (pieces False q cs)
            | [] \<Rightarrow> push c (pieces False q cs))
         else push c (pieces True q cs))
      else if c = 39 \<or> c = 34 then push c (pieces True c cs)
      else if c = 59 then [] # pieces False q cs
      else push c (pieces False q cs))"


definition trimmed_nonempty :: "gostring list \<Rightarrow> gostring list" where
  "trimmed_nonempty ps = filter (\<lambda>s. s \<noteq> []) (map TrimSpace ps)"



section \<open>Auxiliary notions for the proofs\<close>

definition prepend :: "gostring \<Rightarrow> gostring list \<Rightarrow> gostring list" where
  "prepend c ps = (c @ hd ps) # tl ps"

text \<open>What the scanner in state \<open>st\<close> will return once it has read the text \<open>u\<close>, in terms
  of the contract.\<close>

definition pending :: "scanner \<Rightarrow> gostring \<Rightarrow> gostring list" where
  "pending st u =
     statements st @
     trimmed_nonempty (prepend (currentStatement st) (pieces (inQuotes st) (quoteChar st) u))"

definition qok :: "scanner \<Rightarrow> bool" where
  "qok st \<longleftrightarrow> (inQuotes st \<longrightarrow> quoteChar st = 39 \<or> quoteChar st = 34)"

definition line_text :: "gostring \<Rightarrow> gostring" where
  "line_text raw =
     (let l = TrimSpace raw in if l \<noteq> [] \<and> \<not> comment_line l then l @ [10] else [])"

section \<open>Example inputs\<close>

definition example_collaborators :: env where
  "example_collaborators =
     \<lparr>readFile = (\<lambda>w p. if p = ''m.sql'' then Inr (runes ''A;B;C'')
                        else if p = ''ok.sql'' then Inr (runes ''A;C'')
                        else if p = ''blank.sql'' then Inr (runes '' '')
                        else if p = ''comment.sql'' then Inr (runes ''-- nothing'')
                        else if p = ''c'' then Inr (runes ''A;'')
                        else Inl (ExtError ''no such file'')),
      execErr = (\<lambda>w d s. if s = runes ''B'' \<or> s = runes ''TRUNCATE TABLE orders''
                          then Some (ExtError ''boom'') else None),
      rawScan = (\<lambda>w d q. Inr [runes ''users'', runes ''orders'', runes ''items'']),
      beginErr = (\<lambda>w d. None),
      commitErr = (\<lambda>w d. None),
      sqlDBErr = (\<lambda>w d. None),
      closeErr = (\<lambda>w d. if d = 2 then Some (ExtError ''busy'') else None)\<rparr>"

definition example_manager :: ConnectionManager where
  "example_manager =
     SetDsn (AddConnectionFunc NewConnectionManager ''mysql'' (\<lambda>w dsn. Inr (Some 1)))
       ''primary'' ''mysql'' ''dsn1''"


text \<open>Two configured names whose keys with the paths \<open>c\<close> and \<open>b:c\<close> coincide.\<close>

definition colliding_manager :: ConnectionManager where
  "colliding_manager =
     SetDsn
       (SetDsn (AddConnectionFunc NewConnectionManager ''mysql'' (\<lambda>w dsn. Inr (Some 1)))
          ''a:b'' ''mysql'' ''dsn1'')
       ''a'' ''mysql'' ''dsn2''"

text \<open>A manager with two names configured and the given clients cached.\<close>

definition two_names :: "(string \<rightharpoonup> db option) \<Rightarrow> ConnectionManager" where
  "two_names conns =
     \<lparr>connConfigs = [''a'' \<mapsto> \<lparr>DriverName = ''sqlite'', Dsn = ''a.db''\<rparr>,
                    ''b'' \<mapsto> \<lparr>DriverName = ''sqlite'', Dsn = ''b.db''\<rparr>],
      connectionFns = [''sqlite'' \<mapsto> (\<lambda>w dsn. if dsn = ''a.db'' then Inr (Some 1) else Inr (Some 2))],
      connections = conns,
      executedMigrations = {}\<rparr>"

section \<open>The splitter meets its contract\<close>

lemma push_ne [simp]: "push c ps \<noteq> []"
  by (simp add: push_def split: list.splits)

lemma pieces_ne [simp]: "pieces inq q u \<noteq> []"
  by (induction inq q u rule: pieces.induct) (auto split: list.splits)

lemma prepend_push: "ps \<noteq> [] \<Longrightarrow> prepend cur (push c ps) = prepend (cur @ [c]) ps"
  by (cases ps) (simp_all add: prepend_def push_def)

lemma prepend_Nil: "ps \<noteq> [] \<Longrightarrow> prepend [] ps = ps"
  by (cases ps) (simp_all add: prepend_def)

lemma prepend_Cons: "prepend cur (p # ps) = (cur @ p) # ps"
  by (simp add: prepend_def)

lemma TrimSpace_lead: "\<forall>c\<in>set ws. isSpace c \<Longrightarrow> TrimSpace (ws @ x) = TrimSpace x"
  by (simp add: TrimSpace_def dropWhile_append2)

lemma TrimSpace_Nil [simp]: "TrimSpace [] = []"
  by (simp add: TrimSpace_def)

lemma trimmed_prepend_space:
  "\<forall>c\<in>set ws. isSpace c \<Longrightarrow> ps \<noteq> [] \<Longrightarrow> trimmed_nonempty (prepend (ws @ cur) ps) = trimmed_nonempty (prepend cur ps)"
  by (cases ps) (simp_all add: prepend_def trimmed_nonempty_def TrimSpace_lead)

lemma scan_runes_pending:
  "qok st \<Longrightarrow> rest = [] \<or> (hd rest \<noteq> 39 \<and> hd rest \<noteq> 34) \<Longrightarrow>
   pending (scan_runes cs st) rest = pending st (cs @ rest) \<and> qok (scan_runes cs st)"
proof (induction "length cs" arbitrary: cs st rule: less_induct)
  case less
  show ?case
  proof (cases cs)
    case Nil
    then show ?thesis using less.prems by simp
  next
    case (Cons char rest')
    have IH: "\<And>cs' st'. length cs' < length cs \<Longrightarrow> qok st' \<Longrightarrow>
        pending (scan_runes cs' st') rest = pending st' (cs' @ rest) \<and> qok (scan_runes cs' st')"
      using less.hyps less.prems(2) by blast
    have q: "inQuotes st \<Longrightarrow> quoteChar st = 39 \<or> quoteChar st = 34"
      using less.prems(1) by (simp add: qok_def)
    consider (opn) "\<not> inQuotes st" "char = 39 \<or> char = 34"
      | (esc) ds where "inQuotes st" "char = quoteChar st" "rest' = quoteChar st # ds"
      | (cls) "inQuotes st" "char = quoteChar st" "rest' = [] \<or> hd rest' \<noteq> quoteChar st"
      | (semi) "\<not> inQuotes st" "char = 59"
      | (dflt) "inQuotes st \<and> char \<noteq> quoteChar st \<or>
                \<not> inQuotes st \<and> char \<noteq> 39 \<and> char \<noteq> 34 \<and> char \<noteq> 59"
      by (cases rest') auto
    then show ?thesis
    proof cases
      case opn
      let ?st' = "st\<lparr>inQuotes := True, quoteChar := char,
                      currentStatement := currentStatement st @ [char]\<rparr>"
      have 1: "scan_runes cs st = scan_runes rest' ?st'" using opn Cons by simp
      have 2: "qok ?st'" using opn by (simp add: qok_def)
      have 3: "pending ?st' (rest' @ rest) = pending st (cs @ rest)"
        using opn Cons by (simp add: pending_def prepend_push)
      show ?thesis using IH[of rest' ?st'] 1 2 3 Cons by simp
    next
      case esc
      let ?st' = "st\<lparr>currentStatement := currentStatement st @ [char, char]\<rparr>"
      have 1: "scan_runes cs st = scan_runes ds ?st'" using esc Cons by simp
      have 2: "qok ?st'" using less.prems(1) by (simp add: qok_def)
      have 3: "pending ?st' (ds @ rest) = pending st (cs @ rest)"
        using esc Cons by (simp add: pending_def prepend_push)
      show ?thesis using IH[of ds ?st'] 1 2 3 Cons esc by simp
    next
      case cls
      let ?st' = "st\<lparr>inQuotes := False, currentStatement := currentStatement st @ [char]\<rparr>"
      have 1: "scan_runes cs st = scan_runes rest' ?st'"
        using cls Cons by (cases rest') auto
      have 2: "qok ?st'" by (simp add: qok_def)
      have 4: "rest' @ rest = [] \<or> hd (rest' @ rest) \<noteq> quoteChar st"
        using cls less.prems(2) q by (cases rest') auto
      have 3: "pending ?st' (rest' @ rest) = pending st (cs @ rest)"
        using cls Cons 4 by (cases "rest' @ rest") (auto simp add: pending_def prepend_push)
      show ?thesis using IH[of rest' ?st'] 1 2 3 Cons by simp
    next
      case semi
      let ?st' = "st\<lparr>statements := (if TrimSpace (currentStatement st) \<noteq> []
                       then statements st @ [TrimSpace (currentStatement st)] else statements st),
                      currentStatement := []\<rparr>"
      have 1: "scan_runes cs st = scan_runes rest' ?st'" using semi Cons by (simp add: Let_def)
      have 2: "qok ?st'" using semi by (simp add: qok_def)
      have 3: "pending ?st' (rest' @ rest) = pending st (cs @ rest)"
        using semi Cons by (simp add: pending_def prepend_Nil prepend_Cons trimmed_nonempty_def)
      show ?thesis using IH[of rest' ?st'] 1 2 3 Cons by simp
    next
      case dflt
      let ?st' = "st\<lparr>currentStatement := currentStatement st @ [char]\<rparr>"
      have 1: "scan_runes cs st = scan_runes rest' ?st'" using dflt Cons by auto
      have 2: "qok ?st'" using less.prems(1) by (simp add: qok_def)
      have 3: "pending ?st' (rest' @ rest) = pending st (cs @ rest)"
        using dflt Cons by (auto simp add: pending_def prepend_push)
      show ?thesis using IH[of rest' ?st'] 1 2 3 Cons by simp
    qed
  qed
qed


lemma pending_newline:
  assumes "qok st"
  shows "pending st (10 # u) =
         pending (if currentStatement st \<noteq> [] then st\<lparr>currentStatement := currentStatement st @ [10]\<rparr> else st) u"
proof -
  have p: "pieces (inQuotes st) (quoteChar st) (10 # u) = push 10 (pieces (inQuotes st) (quoteChar st) u)"
    using assms by (cases u) (auto simp add: qok_def)
  show ?thesis
  proof (cases "currentStatement st = []")
    case True
    have "isSpace 10" by (simp add: isSpace_def)
    then have "trimmed_nonempty (prepend ([10] @ []) (pieces (inQuotes st) (quoteChar st) u))
             = trimmed_nonempty (prepend [] (pieces (inQuotes st) (quoteChar st) u))"
      by (intro trimmed_prepend_space) simp_all
    then show ?thesis using True p by (simp add: pending_def prepend_push)
  next
    case False
    then show ?thesis using p by (simp add: pending_def prepend_push)
  qed
qed

lemma scan_line_pending:
  assumes "qok st"
  shows "pending (scan_line st raw) u = pending st (line_text raw @ u) \<and> qok (scan_line st raw)"
proof (cases "TrimSpace raw \<noteq> [] \<and> \<not> comment_line (TrimSpace raw)")
  case False
  then show ?thesis using assms
    by (auto simp add: scan_line_def line_text_def comment_line_def Let_def)
next
  case True
  let ?l = "TrimSpace raw"
  let ?st' = "scan_runes ?l st"
  have a: "pending ?st' (10 # u) = pending st (?l @ 10 # u) \<and> qok ?st'"
    using scan_runes_pending[OF assms, of "10 # u" ?l] by simp
  have b: "scan_line st raw =
      (if currentStatement ?st' \<noteq> [] then ?st'\<lparr>currentStatement := currentStatement ?st' @ [10]\<rparr> else ?st')"
    using True by (simp add: scan_line_def comment_line_def Let_def)
  have c: "qok (scan_line st raw)" using a b by (simp add: qok_def)
  have "pending (scan_line st raw) u = pending ?st' (10 # u)"
    using pending_newline[of ?st' u] a b by simp
  then show ?thesis using a c True by (simp add: line_text_def Let_def)
qed

lemma foldl_scan_line_pending:
  "qok st \<Longrightarrow> pending (foldl scan_line st ls) u = pending st (concat (map line_text ls) @ u)"
proof (induction ls arbitrary: st)
  case Nil
  then show ?case by simp
next
  case (Cons l ls)
  then show ?case using scan_line_pending[of st l] by simp
qed

lemma concat_kept:
  "concat (map (\<lambda>l. l @ [10]) (filter (\<lambda>l. l \<noteq> [] \<and> \<not> comment_line l) (map TrimSpace ls)))
   = concat (map line_text ls)"
  by (induction ls) (auto simp add: line_text_def Let_def)

lemma kept_text_line_text: "kept_text t = concat (map line_text (Split t 10))"
  by (simp add: kept_text_def kept_lines_def concat_kept)

lemma pending_final:
  "pending st [] = (if currentStatement st \<noteq> [] then
        (let statement = TrimSpace (currentStatement st) in
         if statement \<noteq> [] then statements st @ [statement] else statements st)
      else statements st)"
  by (simp add: pending_def prepend_def trimmed_nonempty_def Let_def)

lemma splitSQLStatements_pieces:
  "splitSQLStatements t = trimmed_nonempty (pieces False 0 (kept_text t))"
proof -
  have q: "qok scanner_init" by (simp add: qok_def scanner_init_def)
  have "splitSQLStatements t = pending (foldl scan_line scanner_init (Split t 10)) []"
    by (simp add: splitSQLStatements_def pending_final Let_def)
  also have "\<dots> = pending scanner_init (kept_text t)"
    using foldl_scan_line_pending[OF q, of "Split t 10" "[]"] by (simp add: kept_text_line_text)
  also have "\<dots> = trimmed_nonempty (pieces False 0 (kept_text t))"
    by (simp add: pending_def scanner_init_def prepend_Nil)
  finally show ?thesis .
qed


lemma Split_Cons_push: "c \<noteq> sep \<Longrightarrow> Split (c # cs) sep = push c (Split cs sep)"
  by (simp add: push_def)



lemma TrimSpace_idem: "TrimSpace (TrimSpace s) = TrimSpace s"
proof -
  define y where "y = dropWhile isSpace s"
  define z where "z = rev (dropWhile isSpace (rev y))"
  have zt: "TrimSpace s = z" by (simp add: TrimSpace_def y_def z_def)
  have hy: "y = [] \<or> \<not> isSpace (hd y)" unfolding y_def by (metis hd_dropWhile)
  have yz: "y = z @ rev (takeWhile isSpace (rev y))"
  proof -
    have "rev (rev y) = rev (takeWhile isSpace (rev y) @ dropWhile isSpace (rev y))"
      by (simp only: takeWhile_dropWhile_id)
    then show ?thesis unfolding z_def by (simp only: rev_rev_ident rev_append)
  qed
  have a: "dropWhile isSpace z = z"
  proof (cases z)
    case Nil
    then show ?thesis by simp
  next
    case (Cons a zs)
    then have "hd y = a" using yz by (metis append_Cons list.sel(1))
    moreover have "y \<noteq> []" using yz Cons by auto
    ultimately have "\<not> isSpace a" using hy by auto
    then show ?thesis using Cons by simp
  qed
  have b: "dropWhile isSpace (rev z) = rev z"
    unfolding z_def by simp
  show ?thesis unfolding zt using a b by (simp add: TrimSpace_def)
qed




lemma Split_ne [simp]: "Split t sep \<noteq> []"
  by (induction t) (auto split: list.splits)













section \<open>Claims about the splitter\<close>

lemma pieces_in_literal:
  "q \<notin> set body \<Longrightarrow> rest = [] \<or> hd rest \<noteq> q \<Longrightarrow>
   pieces True q (body @ q # rest) = prepend (body @ [q]) (pieces False q rest)"
proof (induction body)
  case Nil
  then show ?case by (cases rest) (auto simp add: prepend_def push_def split: list.splits)
next
  case (Cons c body)
  then have "pieces True q ((c # body) @ q # rest) = push c (pieces True q (body @ q # rest))"
    by simp
  then show ?case using Cons by (simp add: prepend_def push_def split: list.splits)
qed

lemma trimmed_nonempty_trimmed: "s \<in> set (trimmed_nonempty ps) \<Longrightarrow> s \<noteq> [] \<and> TrimSpace s = s"
  by (auto simp add: trimmed_nonempty_def TrimSpace_idem)

lemma example_split:
  "splitSQLStatements
     (runes ''INSERT INTO t VALUES ('a;b');\<newline>INSERT INTO t VALUES ('c');'') =
   [runes ''INSERT INTO t VALUES ('a;b')'', runes ''INSERT INTO t VALUES ('c')'']"
  by (simp add: splitSQLStatements_def scan_line_def runes_def TrimSpace_def isSpace_def
      HasPrefix_def scanner_init_def)

text \<open>
  Claim C1, as amended.  The statements returned are the pieces of the input, once its
  comment-marked lines are dropped wholesale, between the semicolons that lie outside
  single- or double-quoted literals: the splitter never splits at a semicolon inside a
  literal of that text.  A literal opened by \<open>q\<close>, whatever its body holds (semicolons,
  the other quote mark), stays in the piece it started in.  The two \<^verbatim>\<open>INSERT\<close> lines
  split into exactly two statements, the first with its semicolon intact.
\<close>

theorem C1_no_split_inside_literal:
  "splitSQLStatements t = trimmed_nonempty (pieces False 0 (kept_text t)) \<and>
   ((q = 39 \<or> q = 34) \<and> q \<notin> set body \<and> (rest = [] \<or> hd rest \<noteq> q) \<longrightarrow>
      pieces False q0 (q # body @ q # rest) = prepend (q # body @ [q]) (pieces False q rest)) \<and>
   splitSQLStatements
     (runes ''INSERT INTO t VALUES ('a;b');\<newline>INSERT INTO t VALUES ('c');'') =
   [runes ''INSERT INTO t VALUES ('a;b')'', runes ''INSERT INTO t VALUES ('c')'']"
proof (intro conjI impI)
  show "splitSQLStatements t = trimmed_nonempty (pieces False 0 (kept_text t))"
    by (rule splitSQLStatements_pieces)
next
  assume a: "(q = 39 \<or> q = 34) \<and> q \<notin> set body \<and> (rest = [] \<or> hd rest \<noteq> q)"
  then have "pieces True q (body @ q # rest) = prepend (body @ [q]) (pieces False q rest)"
    by (intro pieces_in_literal) simp_all
  moreover have "pieces False q0 (q # body @ q # rest) = push q (pieces True q (body @ q # rest))"
    using a by auto
  ultimately show "pieces False q0 (q # body @ q # rest) = prepend (q # body @ [q]) (pieces False q rest)"
    by (simp add: prepend_def push_def)
next
  show "splitSQLStatements
     (runes ''INSERT INTO t VALUES ('a;b');\<newline>INSERT INTO t VALUES ('c');'') =
   [runes ''INSERT INTO t VALUES ('a;b')'', runes ''INSERT INTO t VALUES ('c')'']"
    by (rule example_split)
qed

theorem C1_no_split_inside_literal_witness:
  "splitSQLStatements (runes ''SELECT \"a\"\"b;c\" ; x'') =
     [runes ''SELECT \"a\"\"b;c\"'', runes ''x''] \<and>
   pieces False 0 (runes ''SELECT \"a\"\"b;c\" ; x\<newline>'') =
     [runes ''SELECT \"a\"\"b;c\" '', runes '' x\<newline>''] \<and>
   pieces False 0 (runes '''a;b') ; c'') = [runes '''a;b') '', runes '' c'']"
proof -
  have k: "kept_text (runes ''SELECT \"a\"\"b;c\" ; x'') = runes ''SELECT \"a\"\"b;c\" ; x\<newline>''"
    by (simp add: kept_text_def kept_lines_def comment_line_def runes_def TrimSpace_def
        isSpace_def HasPrefix_def)
  have p: "pieces False 0 (runes ''SELECT \"a\"\"b;c\" ; x\<newline>'') =
     [runes ''SELECT \"a\"\"b;c\" '', runes '' x\<newline>'']"
    by (simp add: runes_def push_def)
  have t: "trimmed_nonempty [runes ''SELECT \"a\"\"b;c\" '', runes '' x\<newline>''] =
     [runes ''SELECT \"a\"\"b;c\"'', runes ''x'']"
    by (simp add: trimmed_nonempty_def runes_def TrimSpace_def isSpace_def)
  have l: "pieces False 0 (39 # runes ''a;b'' @ 39 # runes '') ; c'') =
      prepend (39 # runes ''a;b'' @ [39]) (pieces False 39 (runes '') ; c''))"
    using C1_no_split_inside_literal [of "runes ''SELECT \"a\"\"b;c\" ; x''" 39 "runes ''a;b''" "runes '') ; c''" 0]
    by (simp add: runes_def)
  have "splitSQLStatements (runes ''SELECT \"a\"\"b;c\" ; x'') =
     [runes ''SELECT \"a\"\"b;c\"'', runes ''x'']"
    using C1_no_split_inside_literal [of "runes ''SELECT \"a\"\"b;c\" ; x''" 39 "runes ''a;b''" "runes '') ; c''" 0]
    by (simp only: k p t)
  moreover have "pieces False 0 (runes '''a;b') ; c'') = [runes '''a;b') '', runes '' c'']"
    using l by (simp add: runes_def prepend_def push_def)
  ultimately show ?thesis using p by simp
qed

theorem C1_counterexample:
  "pieces False 0 (runes ''SELECT 'a\<newline>--'\<newline>, 'x;y' AS c'') =
     [runes ''SELECT 'a\<newline>--'\<newline>, 'x;y' AS c''] \<and>
   splitSQLStatements (runes ''SELECT 'a\<newline>--'\<newline>, 'x;y' AS c'') =
     [runes ''SELECT 'a\<newline>, 'x'', runes ''y' AS c'']"
  by (simp add: splitSQLStatements_def scan_line_def runes_def TrimSpace_def isSpace_def
      HasPrefix_def scanner_init_def push_def)







section \<open>Claims about the connection manager and the dialect operations\<close>

lemma GetConnection_executed:
  "GetConnection m w name = (r, m', w') \<Longrightarrow> executedMigrations m' = executedMigrations m"
  by (auto simp add: GetConnection_def split: option.splits sum.splits)

lemma RunMigration_executed:
  "RunMigration e m w name filePath = (r, m', w') \<Longrightarrow> executedMigrations m' = executedMigrations m"
  by (auto simp add: RunMigration_def Let_def split: prod.splits option.splits sum.splits if_splits
      dest: GetConnection_executed)

lemma RunMigrationOnce_marks:
  "RunMigrationOnce e m w name filePath = (None, m', w') \<Longrightarrow>
   migrationKey name filePath \<in> executedMigrations m'"
  by (auto simp add: RunMigrationOnce_def split: if_splits prod.splits option.splits)

text \<open>
  Claim C3.  \<^verbatim>\<open>GetConnection\<close> fails with the config-not-found error when the name has no
  config and with the factory-not-found error when the driver of the config has no
  factory; it returns a cached client with the manager and the trace unchanged, so without
  calling the factory; otherwise it calls the factory with the DSN of the config, and
  on failure returns the factory's error with the manager unchanged, on success stores and
  returns the new client.
\<close>

theorem C3_GetConnection:
  "(connConfigs m name = None \<longrightarrow>
      GetConnection m w name = (Inl (ConfigNotFound name), m, w)) \<and>
   (connConfigs m name = Some config \<and> connectionFns m (DriverName config) = None \<longrightarrow>
      GetConnection m w name = (Inl (FactoryNotFound (DriverName config)), m, w)) \<and>
   (connConfigs m name = Some config \<and> connectionFns m (DriverName config) = Some connFn \<and>
    connections m name = Some conn \<longrightarrow>
      GetConnection m w name = (Inr conn, m, w)) \<and>
   (connConfigs m name = Some config \<and> connectionFns m (DriverName config) = Some connFn \<and>
    connections m name = None \<and> connFn w (Dsn config) = Inl err \<longrightarrow>
      GetConnection m w name =
        (Inl (External err), m, w @ [FactoryCalled (DriverName config) (Dsn config)])) \<and>
   (connConfigs m name = Some config \<and> connectionFns m (DriverName config) = Some connFn \<and>
    connections m name = None \<and> connFn w (Dsn config) = Inr conn \<longrightarrow>
      GetConnection m w name =
        (Inr conn, m\<lparr>connections := (connections m)(name \<mapsto> conn)\<rparr>,
         w @ [FactoryCalled (DriverName config) (Dsn config)]))"
  by (simp add: GetConnection_def)

theorem C3_GetConnection_witness:
  "GetConnection (two_names Map.empty) [] ''c'' =
     (Inl (ConfigNotFound ''c''), two_names Map.empty, []) \<and>
   GetConnection (SetDsn NewConnectionManager ''p'' ''postgres'' ''dsn'') [] ''p'' =
     (Inl (FactoryNotFound ''postgres''), SetDsn NewConnectionManager ''p'' ''postgres'' ''dsn'', []) \<and>
   GetConnection (two_names [''a'' \<mapsto> Some 1]) [] ''a'' =
     (Inr (Some 1), two_names [''a'' \<mapsto> Some 1], []) \<and>
   GetConnection
     (SetDsn (AddConnectionFunc NewConnectionManager ''mysql'' (\<lambda>w dsn. Inl (ExtError ''refused'')))
        ''p'' ''mysql'' ''dsn'') [] ''p'' =
     (Inl (External (ExtError ''refused'')),
      SetDsn (AddConnectionFunc NewConnectionManager ''mysql'' (\<lambda>w dsn. Inl (ExtError ''refused'')))
        ''p'' ''mysql'' ''dsn'',
      [FactoryCalled ''mysql'' ''dsn'']) \<and>
   GetConnection (two_names [''a'' \<mapsto> Some 1]) [] ''b'' =
     (Inr (Some 2), two_names [''a'' \<mapsto> Some 1, ''b'' \<mapsto> Some 2],
      [FactoryCalled ''sqlite'' ''b.db''])"
proof -
  let ?f = "\<lambda>(w::world) (dsn::string). (Inl (ExtError ''refused'') :: ext_error + db option)"
  let ?m4 = "SetDsn (AddConnectionFunc NewConnectionManager ''mysql'' ?f) ''p'' ''mysql'' ''dsn''"
  let ?g = "\<lambda>(w::world) (dsn::string). if dsn = ''a.db'' then (Inr (Some 1) :: ext_error + db option) else Inr (Some 2)"
  have 1: "connConfigs (two_names Map.empty) ''c'' = None"
    by (simp add: two_names_def)
  have 2: "connConfigs (SetDsn NewConnectionManager ''p'' ''postgres'' ''dsn'') ''p''
             = Some \<lparr>DriverName = ''postgres'', Dsn = ''dsn''\<rparr> \<and>
           connectionFns (SetDsn NewConnectionManager ''p'' ''postgres'' ''dsn'')
             (DriverName \<lparr>DriverName = ''postgres'', Dsn = ''dsn''\<rparr>) = None"
    by (simp add: SetDsn_def NewConnectionManager_def)
  have 3: "connConfigs (two_names [''a'' \<mapsto> Some 1]) ''a''
             = Some \<lparr>DriverName = ''sqlite'', Dsn = ''a.db''\<rparr> \<and>
           connectionFns (two_names [''a'' \<mapsto> Some 1])
             (DriverName \<lparr>DriverName = ''sqlite'', Dsn = ''a.db''\<rparr>) = Some ?g \<and>
           connections (two_names [''a'' \<mapsto> Some 1]) ''a'' = Some (Some 1)"
    by (simp add: two_names_def)
  have 4: "connConfigs ?m4 ''p'' = Some \<lparr>DriverName = ''mysql'', Dsn = ''dsn''\<rparr> \<and>
           connectionFns ?m4 (DriverName \<lparr>DriverName = ''mysql'', Dsn = ''dsn''\<rparr>) = Some ?f \<and>
           connections ?m4 ''p'' = None \<and>
           ?f [] (Dsn \<lparr>DriverName = ''mysql'', Dsn = ''dsn''\<rparr>) = Inl (ExtError ''refused'')"
    by (simp add: SetDsn_def AddConnectionFunc_def NewConnectionManager_def)
  have 5: "connConfigs (two_names [''a'' \<mapsto> Some 1]) ''b''
             = Some \<lparr>DriverName = ''sqlite'', Dsn = ''b.db''\<rparr> \<and>
           connectionFns (two_names [''a'' \<mapsto> Some 1])
             (DriverName \<lparr>DriverName = ''sqlite'', Dsn = ''b.db''\<rparr>) = Some ?g \<and>
           connections (two_names [''a'' \<mapsto> Some 1]) ''b'' = None \<and>
           ?g [] (Dsn \<lparr>DriverName = ''sqlite'', Dsn = ''b.db''\<rparr>) = Inr (Some 2)"
    by (simp add: two_names_def)
  have u: "(two_names [''a'' \<mapsto> Some 1])\<lparr>connections :=
              (connections (two_names [''a'' \<mapsto> Some 1]))(''b'' \<mapsto> Some 2)\<rparr>
           = two_names [''a'' \<mapsto> Some 1, ''b'' \<mapsto> Some 2]"
    by (simp add: two_names_def)
  have a: "GetConnection (two_names Map.empty) [] ''c'' =
     (Inl (ConfigNotFound ''c''), two_names Map.empty, [])"
    using C3_GetConnection [of "two_names Map.empty" "''c''" "[]"] 1 by blast
  have b: "GetConnection (SetDsn NewConnectionManager ''p'' ''postgres'' ''dsn'') [] ''p'' =
     (Inl (FactoryNotFound ''postgres''), SetDsn NewConnectionManager ''p'' ''postgres'' ''dsn'', [])"
    using C3_GetConnection [of "SetDsn NewConnectionManager ''p'' ''postgres'' ''dsn''" "''p''" "[]"
        "\<lparr>DriverName = ''postgres'', Dsn = ''dsn''\<rparr>"] 2 by simp
  have c: "GetConnection (two_names [''a'' \<mapsto> Some 1]) [] ''a'' =
     (Inr (Some 1), two_names [''a'' \<mapsto> Some 1], [])"
    using C3_GetConnection [of "two_names [''a'' \<mapsto> Some 1]" "''a''" "[]"
        "\<lparr>DriverName = ''sqlite'', Dsn = ''a.db''\<rparr>" ?g "Some 1"] 3 by blast
  have d: "GetConnection ?m4 [] ''p'' =
     (Inl (External (ExtError ''refused'')), ?m4, [FactoryCalled ''mysql'' ''dsn''])"
    using C3_GetConnection [of ?m4 "''p''" "[]" "\<lparr>DriverName = ''mysql'', Dsn = ''dsn''\<rparr>" ?f
        "Some 1" "ExtError ''refused''"] 4 by simp
  have e: "GetConnection (two_names [''a'' \<mapsto> Some 1]) [] ''b'' =
     (Inr (Some 2), two_names [''a'' \<mapsto> Some 1, ''b'' \<mapsto> Some 2],
      [FactoryCalled ''sqlite'' ''b.db''])"
    using C3_GetConnection [of "two_names [''a'' \<mapsto> Some 1]" "''b''" "[]"
        "\<lparr>DriverName = ''sqlite'', Dsn = ''b.db''\<rparr>" ?g "Some 2" "ExtError ''x''"] 5 u by simp
  show ?thesis using a b c d e by simp
qed

text \<open>
  Claim C2.  When the key of \<open>(name, file_path)\<close> is marked, \<^verbatim>\<open>RunMigrationOnce\<close> returns
  success with the manager and the trace as they were: no file is read and no database
  is touched.  When it is not marked, the key is added exactly when \<^verbatim>\<open>RunMigration\<close>
  returns success; when \<^verbatim>\<open>RunMigration\<close> fails, its error is returned, the key stays
  unmarked, and the next call with the same arguments runs \<^verbatim>\<open>RunMigration\<close> again.
\<close>

theorem C2_RunMigrationOnce:
  "(migrationKey name filePath \<in> executedMigrations m \<longrightarrow>
      RunMigrationOnce e m w name filePath = (None, m, w)) \<and>
   (migrationKey name filePath \<notin> executedMigrations m \<and>
    RunMigration e m w name filePath = (None, m', w') \<longrightarrow>
      RunMigrationOnce e m w name filePath =
        (None,
         m'\<lparr>executedMigrations := insert (migrationKey name filePath) (executedMigrations m)\<rparr>,
         w')) \<and>
   (migrationKey name filePath \<notin> executedMigrations m \<and>
    RunMigration e m w name filePath = (Some err, m', w') \<longrightarrow>
      RunMigrationOnce e m w name filePath = (Some err, m', w') \<and>
      migrationKey name filePath \<notin> executedMigrations m' \<and>
      RunMigrationOnce e m' w' name filePath =
        (case RunMigration e m' w' name filePath of
           (Some err', m'', w'') \<Rightarrow> (Some err', m'', w'')
         | (None, m'', w'') \<Rightarrow>
             (None,
              m''\<lparr>executedMigrations := insert (migrationKey name filePath) (executedMigrations m'')\<rparr>,
              w'')))"
proof (intro conjI impI)
  assume "migrationKey name filePath \<in> executedMigrations m"
  then show "RunMigrationOnce e m w name filePath = (None, m, w)"
    by (simp add: RunMigrationOnce_def)
next
  assume a: "migrationKey name filePath \<notin> executedMigrations m \<and>
    RunMigration e m w name filePath = (None, m', w')"
  then have "executedMigrations m' = executedMigrations m"
    using RunMigration_executed by blast
  then show "RunMigrationOnce e m w name filePath =
        (None,
         m'\<lparr>executedMigrations := insert (migrationKey name filePath) (executedMigrations m)\<rparr>,
         w')"
    using a by (simp add: RunMigrationOnce_def)
next
  assume a: "migrationKey name filePath \<notin> executedMigrations m \<and>
    RunMigration e m w name filePath = (Some err, m', w')"
  then show "RunMigrationOnce e m w name filePath = (Some err, m', w')"
    by (simp add: RunMigrationOnce_def)
  have x: "executedMigrations m' = executedMigrations m"
    using a RunMigration_executed by blast
  then show n: "migrationKey name filePath \<notin> executedMigrations m'" using a by simp
  show "RunMigrationOnce e m' w' name filePath =
        (case RunMigration e m' w' name filePath of
           (Some err', m'', w'') \<Rightarrow> (Some err', m'', w'')
         | (None, m'', w'') \<Rightarrow>
             (None,
              m''\<lparr>executedMigrations := insert (migrationKey name filePath) (executedMigrations m'')\<rparr>,
              w''))"
    using n by (simp add: RunMigrationOnce_def)
qed

text \<open>
  Claim C10.  The key is the concatenation of the name, a colon and the path, and the
  pairs \<open>(a:b, c)\<close> and \<open>(a, b:c)\<close> have the same key.  After \<^verbatim>\<open>RunMigrationOnce\<close> has
  succeeded for one pair, it returns success for any other pair with the same key, with the
  manager and the trace unchanged: the migration of that pair is not run.
\<close>

theorem C10_key_collision:
  "migrationKey name filePath = name @ '':'' @ filePath \<and>
   migrationKey ''a:b'' ''c'' = migrationKey ''a'' ''b:c'' \<and>
   (migrationKey name1 path1 = migrationKey name2 path2 \<and>
    RunMigrationOnce e m w name1 path1 = (None, m', w') \<longrightarrow>
      RunMigrationOnce e m' w' name2 path2 = (None, m', w'))"
proof (intro conjI impI)
  show "migrationKey name filePath = name @ '':'' @ filePath" by (simp add: migrationKey_def)
  show "migrationKey ''a:b'' ''c'' = migrationKey ''a'' ''b:c''" by (simp add: migrationKey_def)
next
  assume a: "migrationKey name1 path1 = migrationKey name2 path2 \<and>
    RunMigrationOnce e m w name1 path1 = (None, m', w')"
  then have "migrationKey name2 path2 \<in> executedMigrations m'"
    using RunMigrationOnce_marks by metis
  then show "RunMigrationOnce e m' w' name2 path2 = (None, m', w')"
    by (simp add: RunMigrationOnce_def)
qed

lemmas evaluation_defs =
  RunMigrationOnce_def RunMigration_def GetConnection_def Transaction_def migrationKey_def
  example_manager_def example_collaborators_def colliding_manager_def two_names_def
  SetDsn_def AddConnectionFunc_def NewConnectionManager_def
  splitSQLStatements_def scan_line_def runes_def TrimSpace_def isSpace_def HasPrefix_def
  scanner_init_def Let_def

theorem C2_RunMigrationOnce_witness:
  "RunMigrationOnce example_collaborators
     (example_manager\<lparr>executedMigrations := {''primary:ok.sql''}\<rparr>) [] ''primary'' ''ok.sql'' =
     (None, example_manager\<lparr>executedMigrations := {''primary:ok.sql''}\<rparr>, []) \<and>
   RunMigrationOnce example_collaborators example_manager [] ''primary'' ''ok.sql'' =
     (None,
      example_manager\<lparr>connections := [''primary'' \<mapsto> Some 1],
                       executedMigrations := {''primary:ok.sql''}\<rparr>,
      [FactoryCalled ''mysql'' ''dsn1'', FileRead ''ok.sql'', TxBegin 1,
       Exec 1 (runes ''A''), Exec 1 (runes ''C''), TxCommit 1]) \<and>
   RunMigrationOnce example_collaborators example_manager [] ''primary'' ''m.sql'' =
     (Some (StatementFailed 2 ''m.sql'' (ExtError ''boom'') (runes ''B'')),
      example_manager\<lparr>connections := [''primary'' \<mapsto> Some 1]\<rparr>,
      [FactoryCalled ''mysql'' ''dsn1'', FileRead ''m.sql'', TxBegin 1,
       Exec 1 (runes ''A''), Exec 1 (runes ''B''), TxRollback 1]) \<and>
   RunMigrationOnce example_collaborators
     (example_manager\<lparr>connections := [''primary'' \<mapsto> Some 1]\<rparr>)
     [FactoryCalled ''mysql'' ''dsn1'', FileRead ''m.sql'', TxBegin 1,
      Exec 1 (runes ''A''), Exec 1 (runes ''B''), TxRollback 1] ''primary'' ''m.sql'' =
     (Some (StatementFailed 2 ''m.sql'' (ExtError ''boom'') (runes ''B'')),
      example_manager\<lparr>connections := [''primary'' \<mapsto> Some 1]\<rparr>,
      [FactoryCalled ''mysql'' ''dsn1'', FileRead ''m.sql'', TxBegin 1,
       Exec 1 (runes ''A''), Exec 1 (runes ''B''), TxRollback 1,
       FileRead ''m.sql'', TxBegin 1, Exec 1 (runes ''A''), Exec 1 (runes ''B''), TxRollback 1])"
proof -
  let ?e = example_collaborators
  let ?m1 = "example_manager\<lparr>executedMigrations := {''primary:ok.sql''}\<rparr>"
  let ?m' = "example_manager\<lparr>connections := [''primary'' \<mapsto> Some 1]\<rparr>"
  let ?w2 = "[FactoryCalled ''mysql'' ''dsn1'', FileRead ''ok.sql'', TxBegin 1,
       Exec 1 (runes ''A''), Exec 1 (runes ''C''), TxCommit 1]"
  let ?w3 = "[FactoryCalled ''mysql'' ''dsn1'', FileRead ''m.sql'', TxBegin 1,
       Exec 1 (runes ''A''), Exec 1 (runes ''B''), TxRollback 1]"
  let ?err = "StatementFailed 2 ''m.sql'' (ExtError ''boom'') (runes ''B'')"
  have 1: "migrationKey ''primary'' ''ok.sql'' \<in> executedMigrations ?m1"
    by (simp add: migrationKey_def)
  have 2: "migrationKey ''primary'' ''ok.sql'' \<notin> executedMigrations example_manager \<and>
           RunMigration ?e example_manager [] ''primary'' ''ok.sql'' = (None, ?m', ?w2)"
    by (simp add: evaluation_defs)
  have 3: "migrationKey ''primary'' ''m.sql'' \<notin> executedMigrations example_manager \<and>
           RunMigration ?e example_manager [] ''primary'' ''m.sql'' = (Some ?err, ?m', ?w3)"
    by (simp add: evaluation_defs)
  have 4: "RunMigration ?e ?m' ?w3 ''primary'' ''m.sql'' = (Some ?err, ?m',
      ?w3 @ [FileRead ''m.sql'', TxBegin 1, Exec 1 (runes ''A''), Exec 1 (runes ''B''), TxRollback 1])"
    by (simp add: evaluation_defs)
  have a: "RunMigrationOnce ?e ?m1 [] ''primary'' ''ok.sql'' = (None, ?m1, [])"
    using C2_RunMigrationOnce [of "''primary''" "''ok.sql''" ?m1 ?e "[]"] 1 by blast
  have b: "RunMigrationOnce ?e example_manager [] ''primary'' ''ok.sql'' =
     (None, ?m'\<lparr>executedMigrations :=
         insert (migrationKey ''primary'' ''ok.sql'') (executedMigrations example_manager)\<rparr>, ?w2)"
    using C2_RunMigrationOnce [of "''primary''" "''ok.sql''" example_manager ?e "[]" ?m' ?w2] 2
    by blast
  have c: "RunMigrationOnce ?e example_manager [] ''primary'' ''m.sql'' = (Some ?err, ?m', ?w3) \<and>
      RunMigrationOnce ?e ?m' ?w3 ''primary'' ''m.sql'' =
        (case RunMigration ?e ?m' ?w3 ''primary'' ''m.sql'' of
           (Some err', m'', w'') \<Rightarrow> (Some err', m'', w'')
         | (None, m'', w'') \<Rightarrow>
             (None,
              m''\<lparr>executedMigrations := insert (migrationKey ''primary'' ''m.sql'') (executedMigrations m'')\<rparr>,
              w''))"
    using C2_RunMigrationOnce [of "''primary''" "''m.sql''" example_manager ?e "[]" ?m' ?w3 ?err] 3
    by blast
  have d: "RunMigrationOnce ?e ?m' ?w3 ''primary'' ''m.sql'' = (Some ?err, ?m',
      ?w3 @ [FileRead ''m.sql'', TxBegin 1, Exec 1 (runes ''A''), Exec 1 (runes ''B''), TxRollback 1])"
    using c by (simp only: 4 prod.case option.case)
  have k: "?m'\<lparr>executedMigrations :=
         insert (migrationKey ''primary'' ''ok.sql'') (executedMigrations example_manager)\<rparr>
       = example_manager\<lparr>connections := [''primary'' \<mapsto> Some 1],
                       executedMigrations := {''primary:ok.sql''}\<rparr>"
    by (simp add: example_manager_def SetDsn_def AddConnectionFunc_def NewConnectionManager_def
        migrationKey_def)
  show ?thesis using a b c d k by simp
qed

theorem C10_key_collision_witness:
  "RunMigrationOnce example_collaborators colliding_manager [] ''a:b'' ''c'' =
     (None,
      colliding_manager\<lparr>connections := [''a:b'' \<mapsto> Some 1], executedMigrations := {''a:b:c''}\<rparr>,
      [FactoryCalled ''mysql'' ''dsn1'', FileRead ''c'', TxBegin 1, Exec 1 (runes ''A''), TxCommit 1]) \<and>
   RunMigrationOnce example_collaborators
     (colliding_manager\<lparr>connections := [''a:b'' \<mapsto> Some 1], executedMigrations := {''a:b:c''}\<rparr>)
     [FactoryCalled ''mysql'' ''dsn1'', FileRead ''c'', TxBegin 1, Exec 1 (runes ''A''), TxCommit 1]
     ''a'' ''b:c'' =
     (None,
      colliding_manager\<lparr>connections := [''a:b'' \<mapsto> Some 1], executedMigrations := {''a:b:c''}\<rparr>,
      [FactoryCalled ''mysql'' ''dsn1'', FileRead ''c'', TxBegin 1, Exec 1 (runes ''A''), TxCommit 1])"
proof -
  let ?e = example_collaborators
  let ?m' = "colliding_manager\<lparr>connections := [''a:b'' \<mapsto> Some 1], executedMigrations := {''a:b:c''}\<rparr>"
  let ?w' = "[FactoryCalled ''mysql'' ''dsn1'', FileRead ''c'', TxBegin 1, Exec 1 (runes ''A''), TxCommit 1]"
  have 1: "RunMigrationOnce ?e colliding_manager [] ''a:b'' ''c'' = (None, ?m', ?w')"
    by (simp add: evaluation_defs)
  have 2: "migrationKey ''a:b'' ''c'' = migrationKey ''a'' ''b:c''"
    by (simp add: migrationKey_def)
  have "RunMigrationOnce ?e ?m' ?w' ''a'' ''b:c'' = (None, ?m', ?w')"
    using C10_key_collision [of _ _ "''a:b''" "''c''" "''a''" "''b:c''" ?e colliding_manager "[]" ?m' ?w']
      1 2 by blast
  then show ?thesis using 1 by simp
qed

lemma splitSQLStatements_trimmed:
  "s \<in> set (splitSQLStatements t) \<Longrightarrow> s \<noteq> [] \<and> TrimSpace s = s"
  unfolding splitSQLStatements_pieces by (rule trimmed_nonempty_trimmed)

lemma exec_statements_fail:
  assumes "\<forall>s\<in>set ss. s \<noteq> [] \<and> TrimSpace s = s"
    and "k < length ss"
    and "\<forall>j<k. execErr e (w @ map (Exec d) (take j ss)) d (ss ! j) = None"
    and "execErr e (w @ map (Exec d) (take k ss)) d (ss ! k) = Some err"
  shows "exec_statements e d f ss i w =
         (Some (StatementFailed (i + k + 1) f err (ss ! k)), w @ map (Exec d) (take (Suc k) ss))"
  using assms
proof (induction ss arbitrary: k i w)
  case Nil
  then show ?case by simp
next
  case (Cons s ss)
  have s: "TrimSpace s = s" "s \<noteq> []" using Cons.prems(1) by auto
  show ?case
  proof (cases k)
    case 0
    then show ?thesis using Cons.prems(4) s by simp
  next
    case (Suc k')
    have ok: "execErr e w d s = None" using Cons.prems(3) Suc by force
    have a: "\<forall>j<k'. execErr e ((w @ [Exec d s]) @ map (Exec d) (take j ss)) d (ss ! j) = None"
    proof (intro allI impI)
      fix j assume "j < k'"
      then have "Suc j < k" using Suc by simp
      then show "execErr e ((w @ [Exec d s]) @ map (Exec d) (take j ss)) d (ss ! j) = None"
        using Cons.prems(3) by force
    qed
    have b: "execErr e ((w @ [Exec d s]) @ map (Exec d) (take k' ss)) d (ss ! k') = Some err"
      using Cons.prems(4) Suc by simp
    have "exec_statements e d f ss (i + 1) (w @ [Exec d s]) =
         (Some (StatementFailed (i + 1 + k' + 1) f err (ss ! k')),
          (w @ [Exec d s]) @ map (Exec d) (take (Suc k') ss))"
      using Cons.IH[of k' "w @ [Exec d s]" "i + 1"] Cons.prems(1,2) Suc a b by simp
    then show ?thesis using ok s Suc by simp
  qed
qed

lemma exec_statements_ok:
  assumes "\<forall>s\<in>set ss. s \<noteq> [] \<and> TrimSpace s = s"
    and "\<forall>j<length ss. execErr e (w @ map (Exec d) (take j ss)) d (ss ! j) = None"
  shows "exec_statements e d f ss i w = (None, w @ map (Exec d) ss)"
  using assms
proof (induction ss arbitrary: i w)
  case Nil
  then show ?case by simp
next
  case (Cons s ss)
  have s: "TrimSpace s = s" "s \<noteq> []" using Cons.prems(1) by auto
  have ok: "execErr e w d s = None" using Cons.prems(2) by force
  have a: "\<forall>j<length ss. execErr e ((w @ [Exec d s]) @ map (Exec d) (take j ss)) d (ss ! j) = None"
  proof (intro allI impI)
    fix j assume "j < length ss"
    then have "Suc j < length (s # ss)" by simp
    then show "execErr e ((w @ [Exec d s]) @ map (Exec d) (take j ss)) d (ss ! j) = None"
      using Cons.prems(2) by force
  qed
  have "exec_statements e d f ss (i + 1) (w @ [Exec d s]) = (None, (w @ [Exec d s]) @ map (Exec d) ss)"
    using Cons.IH[of "w @ [Exec d s]" "i + 1"] Cons.prems(1) a by simp
  then show ?case using ok s by simp
qed

text \<open>
  Claim C4.  Once the connection is resolved, \<^verbatim>\<open>RunMigration\<close> fails with the
  file-read error when the file cannot be read, with the empty-file error when its content
  is blank after trimming, and with the no-statements error when the splitter returns no
  statement.  Otherwise, on a client, it begins one transaction and executes the statements
  in order.
  When statement \<open>k + 1\<close> is the first to fail, the statements after it are not executed,
  the transaction is rolled back, and the error carries the 1-based index \<open>k + 1\<close>, the
  file path, the error of the driver and the text of the statement.  When no statement
  fails, all are executed and the transaction is committed.
\<close>

theorem C4_RunMigration:
  assumes "GetConnection m w name = (Inr db, m', w')"
  shows
  "(readFile e w' filePath = Inl err \<longrightarrow>
      RunMigration e m w name filePath =
        (Some (FileReadError filePath err), m', w' @ [FileRead filePath])) \<and>
   (readFile e w' filePath = Inr content \<and> TrimSpace content = [] \<longrightarrow>
      RunMigration e m w name filePath =
        (Some (EmptyFile filePath), m', w' @ [FileRead filePath])) \<and>
   (readFile e w' filePath = Inr content \<and> TrimSpace content \<noteq> [] \<and>
    splitSQLStatements (TrimSpace content) = [] \<longrightarrow>
      RunMigration e m w name filePath =
        (Some (NoStatements filePath), m', w' @ [FileRead filePath])) \<and>
   (readFile e w' filePath = Inr content \<and> TrimSpace content \<noteq> [] \<and>
    splitSQLStatements (TrimSpace content) = stmts \<and> stmts \<noteq> [] \<and> db = Some d \<and>
    beginErr e (w' @ [FileRead filePath]) d = None \<and> k < length stmts \<and>
    (\<forall>j<k. execErr e (w' @ [FileRead filePath, TxBegin d] @ map (Exec d) (take j stmts)) d
              (stmts ! j) = None) \<and>
    execErr e (w' @ [FileRead filePath, TxBegin d] @ map (Exec d) (take k stmts)) d
      (stmts ! k) = Some err \<longrightarrow>
      RunMigration e m w name filePath =
        (Some (StatementFailed (k + 1) filePath err (stmts ! k)), m',
         w' @ [FileRead filePath, TxBegin d] @ map (Exec d) (take (k + 1) stmts) @
           [TxRollback d])) \<and>
   (readFile e w' filePath = Inr content \<and> TrimSpace content \<noteq> [] \<and>
    splitSQLStatements (TrimSpace content) = stmts \<and> stmts \<noteq> [] \<and> db = Some d \<and>
    beginErr e (w' @ [FileRead filePath]) d = None \<and>
    (\<forall>j<length stmts.
        execErr e (w' @ [FileRead filePath, TxBegin d] @ map (Exec d) (take j stmts)) d
          (stmts ! j) = None) \<and>
    commitErr e (w' @ [FileRead filePath, TxBegin d] @ map (Exec d) stmts) d = None \<longrightarrow>
      RunMigration e m w name filePath =
        (None, m', w' @ [FileRead filePath, TxBegin d] @ map (Exec d) stmts @ [TxCommit d]))"
proof (intro conjI impI)
  assume "readFile e w' filePath = Inl err"
  then show "RunMigration e m w name filePath =
        (Some (FileReadError filePath err), m', w' @ [FileRead filePath])"
    using assms by (simp add: RunMigration_def)
next
  assume "readFile e w' filePath = Inr content \<and> TrimSpace content = []"
  then show "RunMigration e m w name filePath =
        (Some (EmptyFile filePath), m', w' @ [FileRead filePath])"
    using assms by (simp add: RunMigration_def)
next
  assume "readFile e w' filePath = Inr content \<and> TrimSpace content \<noteq> [] \<and>
    splitSQLStatements (TrimSpace content) = []"
  then show "RunMigration e m w name filePath =
        (Some (NoStatements filePath), m', w' @ [FileRead filePath])"
    using assms by (simp add: RunMigration_def)
next
  assume a: "readFile e w' filePath = Inr content \<and> TrimSpace content \<noteq> [] \<and>
    splitSQLStatements (TrimSpace content) = stmts \<and> stmts \<noteq> [] \<and> db = Some d \<and>
    beginErr e (w' @ [FileRead filePath]) d = None \<and> k < length stmts \<and>
    (\<forall>j<k. execErr e (w' @ [FileRead filePath, TxBegin d] @ map (Exec d) (take j stmts)) d
              (stmts ! j) = None) \<and>
    execErr e (w' @ [FileRead filePath, TxBegin d] @ map (Exec d) (take k stmts)) d
      (stmts ! k) = Some err"
  have t: "\<forall>s\<in>set stmts. s \<noteq> [] \<and> TrimSpace s = s"
    using a splitSQLStatements_trimmed by blast
  have "exec_statements e d filePath stmts 0 (w' @ [FileRead filePath, TxBegin d]) =
          (Some (StatementFailed (0 + k + 1) filePath err (stmts ! k)),
           (w' @ [FileRead filePath, TxBegin d]) @ map (Exec d) (take (Suc k) stmts))"
    using a t by (intro exec_statements_fail) simp_all
  then have "Transaction e d (exec_statements e d filePath stmts 0) (w' @ [FileRead filePath]) =
          (Some (StatementFailed (k + 1) filePath err (stmts ! k)),
           w' @ [FileRead filePath, TxBegin d] @ map (Exec d) (take (k + 1) stmts) @ [TxRollback d])"
    using a by (simp add: Transaction_def)
  then show "RunMigration e m w name filePath =
        (Some (StatementFailed (k + 1) filePath err (stmts ! k)), m',
         w' @ [FileRead filePath, TxBegin d] @ map (Exec d) (take (k + 1) stmts) @
           [TxRollback d])"
    using assms a by (simp add: RunMigration_def)
next
  assume a: "readFile e w' filePath = Inr content \<and> TrimSpace content \<noteq> [] \<and>
    splitSQLStatements (TrimSpace content) = stmts \<and> stmts \<noteq> [] \<and> db = Some d \<and>
    beginErr e (w' @ [FileRead filePath]) d = None \<and>
    (\<forall>j<length stmts.
        execErr e (w' @ [FileRead filePath, TxBegin d] @ map (Exec d) (take j stmts)) d
          (stmts ! j) = None) \<and>
    commitErr e (w' @ [FileRead filePath, TxBegin d] @ map (Exec d) stmts) d = None"
  have t: "\<forall>s\<in>set stmts. s \<noteq> [] \<and> TrimSpace s = s"
    using a splitSQLStatements_trimmed by blast
  have "exec_statements e d filePath stmts 0 (w' @ [FileRead filePath, TxBegin d]) =
          (None, (w' @ [FileRead filePath, TxBegin d]) @ map (Exec d) stmts)"
    using a t by (intro exec_statements_ok) simp_all
  then have "Transaction e d (exec_statements e d filePath stmts 0) (w' @ [FileRead filePath]) =
          (None, w' @ [FileRead filePath, TxBegin d] @ map (Exec d) stmts @ [TxCommit d])"
    using a by (simp add: Transaction_def)
  then show "RunMigration e m w name filePath =
        (None, m', w' @ [FileRead filePath, TxBegin d] @ map (Exec d) stmts @ [TxCommit d])"
    using assms a by (simp add: RunMigration_def)
qed

theorem C4_RunMigration_witness:
  "RunMigration example_collaborators example_manager [] ''primary'' ''missing.sql'' =
     (Some (FileReadError ''missing.sql'' (ExtError ''no such file'')),
      example_manager\<lparr>connections := [''primary'' \<mapsto> Some 1]\<rparr>,
      [FactoryCalled ''mysql'' ''dsn1'', FileRead ''missing.sql'']) \<and>
   RunMigration example_collaborators example_manager [] ''primary'' ''blank.sql'' =
     (Some (EmptyFile ''blank.sql''),
      example_manager\<lparr>connections := [''primary'' \<mapsto> Some 1]\<rparr>,
      [FactoryCalled ''mysql'' ''dsn1'', FileRead ''blank.sql'']) \<and>
   RunMigration example_collaborators example_manager [] ''primary'' ''comment.sql'' =
     (Some (NoStatements ''comment.sql''),
      example_manager\<lparr>connections := [''primary'' \<mapsto> Some 1]\<rparr>,
      [FactoryCalled ''mysql'' ''dsn1'', FileRead ''comment.sql'']) \<and>
   RunMigration example_collaborators example_manager [] ''primary'' ''m.sql'' =
     (Some (StatementFailed 2 ''m.sql'' (ExtError ''boom'') (runes ''B'')),
      example_manager\<lparr>connections := [''primary'' \<mapsto> Some 1]\<rparr>,
      [FactoryCalled ''mysql'' ''dsn1'', FileRead ''m.sql'', TxBegin 1,
       Exec 1 (runes ''A''), Exec 1 (runes ''B''), TxRollback 1]) \<and>
   RunMigration example_collaborators example_manager [] ''primary'' ''ok.sql'' =
     (None,
      example_manager\<lparr>connections := [''primary'' \<mapsto> Some 1]\<rparr>,
      [FactoryCalled ''mysql'' ''dsn1'', FileRead ''ok.sql'', TxBegin 1,
       Exec 1 (runes ''A''), Exec 1 (runes ''C''), TxCommit 1])"
proof -
  let ?e = example_collaborators
  let ?m' = "example_manager\<lparr>connections := [''primary'' \<mapsto> Some 1]\<rparr>"
  let ?w' = "[FactoryCalled ''mysql'' ''dsn1'']"
  have g: "GetConnection example_manager [] ''primary'' = (Inr (Some 1), ?m', ?w')"
    by (simp add: evaluation_defs)
  note T = C4_RunMigration [OF g]
  have 1: "readFile ?e ?w' ''missing.sql'' = Inl (ExtError ''no such file'')"
    by (simp add: example_collaborators_def)
  have 2: "readFile ?e ?w' ''blank.sql'' = Inr (runes '' '') \<and> TrimSpace (runes '' '') = []"
    by (simp add: example_collaborators_def runes_def TrimSpace_def isSpace_def)
  have 3: "readFile ?e ?w' ''comment.sql'' = Inr (runes ''-- nothing'') \<and>
           TrimSpace (runes ''-- nothing'') \<noteq> [] \<and>
           splitSQLStatements (TrimSpace (runes ''-- nothing'')) = []"
    by (simp add: evaluation_defs)
  have 4: "readFile ?e ?w' ''m.sql'' = Inr (runes ''A;B;C'') \<and>
           TrimSpace (runes ''A;B;C'') \<noteq> [] \<and>
           splitSQLStatements (TrimSpace (runes ''A;B;C'')) = [runes ''A'', runes ''B'', runes ''C''] \<and>
           [runes ''A'', runes ''B'', runes ''C''] \<noteq> [] \<and> Some (1::nat) = Some 1 \<and>
           beginErr ?e (?w' @ [FileRead ''m.sql'']) 1 = None \<and>
           1 < length [runes ''A'', runes ''B'', runes ''C''] \<and>
           (\<forall>j<1. execErr ?e (?w' @ [FileRead ''m.sql'', TxBegin 1] @
                 map (Exec 1) (take j [runes ''A'', runes ''B'', runes ''C''])) 1
              ([runes ''A'', runes ''B'', runes ''C''] ! j) = None) \<and>
           execErr ?e (?w' @ [FileRead ''m.sql'', TxBegin 1] @
                 map (Exec 1) (take 1 [runes ''A'', runes ''B'', runes ''C''])) 1
              ([runes ''A'', runes ''B'', runes ''C''] ! 1) = Some (ExtError ''boom'')"
    by (simp add: evaluation_defs)
  have 5: "readFile ?e ?w' ''ok.sql'' = Inr (runes ''A;C'') \<and>
           TrimSpace (runes ''A;C'') \<noteq> [] \<and>
           splitSQLStatements (TrimSpace (runes ''A;C'')) = [runes ''A'', runes ''C''] \<and>
           [runes ''A'', runes ''C''] \<noteq> [] \<and> Some (1::nat) = Some 1 \<and>
           beginErr ?e (?w' @ [FileRead ''ok.sql'']) 1 = None \<and>
           (\<forall>j<length [runes ''A'', runes ''C''].
               execErr ?e (?w' @ [FileRead ''ok.sql'', TxBegin 1] @
                 map (Exec 1) (take j [runes ''A'', runes ''C''])) 1
              ([runes ''A'', runes ''C''] ! j) = None) \<and>
           commitErr ?e (?w' @ [FileRead ''ok.sql'', TxBegin 1] @
                 map (Exec 1) [runes ''A'', runes ''C'']) 1 = None"
    by (simp add: evaluation_defs All_less_Suc)
  have a: "RunMigration ?e example_manager [] ''primary'' ''missing.sql'' =
     (Some (FileReadError ''missing.sql'' (ExtError ''no such file'')), ?m', ?w' @ [FileRead ''missing.sql''])"
    using T [of ?e "''missing.sql''" "ExtError ''no such file''"] 1 by blast
  have b: "RunMigration ?e example_manager [] ''primary'' ''blank.sql'' =
     (Some (EmptyFile ''blank.sql''), ?m', ?w' @ [FileRead ''blank.sql''])"
    using T [of ?e "''blank.sql''" _ "runes '' ''"] 2 by blast
  have c: "RunMigration ?e example_manager [] ''primary'' ''comment.sql'' =
     (Some (NoStatements ''comment.sql''), ?m', ?w' @ [FileRead ''comment.sql''])"
    using T [of ?e "''comment.sql''" _ "runes ''-- nothing''"] 3 by blast
  have d: "RunMigration ?e example_manager [] ''primary'' ''m.sql'' =
     (Some (StatementFailed (1 + 1) ''m.sql'' (ExtError ''boom'') ([runes ''A'', runes ''B'', runes ''C''] ! 1)),
      ?m', ?w' @ [FileRead ''m.sql'', TxBegin 1] @
         map (Exec 1) (take (1 + 1) [runes ''A'', runes ''B'', runes ''C'']) @ [TxRollback 1])"
    using T [of ?e "''m.sql''" "ExtError ''boom''" "runes ''A;B;C''"
        "[runes ''A'', runes ''B'', runes ''C'']" 1 1] 4 by blast
  have f: "RunMigration ?e example_manager [] ''primary'' ''ok.sql'' =
     (None, ?m', ?w' @ [FileRead ''ok.sql'', TxBegin 1] @
         map (Exec 1) [runes ''A'', runes ''C''] @ [TxCommit 1])"
    using T [of ?e "''ok.sql''" _ "runes ''A;C''" "[runes ''A'', runes ''C'']" 1] 5 by blast
  show ?thesis using a b c d f by (simp add: numeral_2_eq_2)
qed

lemma table_loop_fail:
  assumes "k < length ts"
    and "\<forall>j<k. execErr e (w @ map (\<lambda>t. Exec d (tableStmt c t)) (take j ts)) d (tableStmt c (ts ! j)) = None"
    and "execErr e (w @ map (\<lambda>t. Exec d (tableStmt c t)) (take k ts)) d (tableStmt c (ts ! k)) = Some err"
  shows "table_loop e d c ts w =
         (Some (TableFailed (tableVerb c) (ts ! k) err),
          w @ map (\<lambda>t. Exec d (tableStmt c t)) (take (Suc k) ts))"
  using assms
proof (induction ts arbitrary: k w)
  case Nil
  then show ?case by simp
next
  case (Cons s ts)
  show ?case
  proof (cases k)
    case 0
    then show ?thesis using Cons.prems(3) by simp
  next
    case (Suc k')
    have ok: "execErr e w d (tableStmt c s) = None" using Cons.prems(2) Suc by force
    have a: "\<forall>j<k'. execErr e ((w @ [Exec d (tableStmt c s)]) @
                 map (\<lambda>t. Exec d (tableStmt c t)) (take j ts)) d (tableStmt c (ts ! j)) = None"
    proof (intro allI impI)
      fix j assume "j < k'"
      then have "Suc j < k" using Suc by simp
      then show "execErr e ((w @ [Exec d (tableStmt c s)]) @
                 map (\<lambda>t. Exec d (tableStmt c t)) (take j ts)) d (tableStmt c (ts ! j)) = None"
        using Cons.prems(2) by force
    qed
    have b: "execErr e ((w @ [Exec d (tableStmt c s)]) @
                 map (\<lambda>t. Exec d (tableStmt c t)) (take k' ts)) d (tableStmt c (ts ! k')) = Some err"
      using Cons.prems(3) Suc by simp
    have "table_loop e d c ts (w @ [Exec d (tableStmt c s)]) =
         (Some (TableFailed (tableVerb c) (ts ! k') err),
          (w @ [Exec d (tableStmt c s)]) @ map (\<lambda>t. Exec d (tableStmt c t)) (take (Suc k') ts))"
      using Cons.IH[of k' "w @ [Exec d (tableStmt c s)]"] Cons.prems(1) Suc a b by simp
    then show ?thesis using ok Suc by simp
  qed
qed

lemma table_loop_ok:
  assumes "\<forall>j<length ts. execErr e (w @ map (\<lambda>t. Exec d (tableStmt c t)) (take j ts)) d (tableStmt c (ts ! j)) = None"
  shows "table_loop e d c ts w = (None, w @ map (\<lambda>t. Exec d (tableStmt c t)) ts)"
  using assms
proof (induction ts arbitrary: w)
  case Nil
  then show ?case by simp
next
  case (Cons s ts)
  have ok: "execErr e w d (tableStmt c s) = None" using Cons.prems by force
  have a: "\<forall>j<length ts. execErr e ((w @ [Exec d (tableStmt c s)]) @
               map (\<lambda>t. Exec d (tableStmt c t)) (take j ts)) d (tableStmt c (ts ! j)) = None"
  proof (intro allI impI)
    fix j assume "j < length ts"
    then have "Suc j < length (s # ts)" by simp
    then show "execErr e ((w @ [Exec d (tableStmt c s)]) @
               map (\<lambda>t. Exec d (tableStmt c t)) (take j ts)) d (tableStmt c (ts ! j)) = None"
      using Cons.prems by force
  qed
  have "table_loop e d c ts (w @ [Exec d (tableStmt c s)]) =
        (None, (w @ [Exec d (tableStmt c s)]) @ map (\<lambda>t. Exec d (tableStmt c t)) ts)"
    using Cons.IH[of "w @ [Exec d (tableStmt c s)]"] a by simp
  then show ?case using ok by simp
qed

lemma dialect_operations_shape:
  assumes "(f, c) \<in> set dialect_operations"
  shows "f e db w = table_operation e c db w"
    and "tableStmt c t \<noteq> enableStmt c"
    and "disableStmt c \<noteq> enableStmt c"
  using assms
  by (auto simp add: dialect_operations_def FlushSQLiteTables_def FlushMySQLTables_def
      FlushPostgresTables_def DropSQLiteTables_def DropMySQLTables_def DropPostgresTables_def
      FlushSQLite_def FlushMySQL_def FlushPostgres_def DropSQLite_def DropMySQL_def
      DropPostgres_def postgres_disable_def postgres_enable_def runes_def)

text \<open>
  Claim C7.  For each of the six flush and drop operations, run on a client: when the
  statement for table \<open>k + 1\<close> is the first to fail, nothing is issued after it (no statement
  for a later table, and the statement that re-enables the integrity checks is not among
  the statements issued) and the error names that table; when every step succeeds, the
  statements issued are the one that disables the checks, the query for the tables, one
  statement for each table in the order of the answer, and the one that re-enables the
  checks.
\<close>

theorem C7_dialect_operations:
  assumes "(f, c) \<in> set dialect_operations"
  shows
  "(execErr e w d (disableStmt c) = None \<and>
    rawScan e (w @ [Exec d (disableStmt c)]) d (tablesQuery c) = Inr tables \<and>
    k < length tables \<and>
    (\<forall>j<k. execErr e (w @ [Exec d (disableStmt c), RawScan d (tablesQuery c)] @
                       map (\<lambda>t. Exec d (tableStmt c t)) (take j tables)) d
              (tableStmt c (tables ! j)) = None) \<and>
    execErr e (w @ [Exec d (disableStmt c), RawScan d (tablesQuery c)] @
                 map (\<lambda>t. Exec d (tableStmt c t)) (take k tables)) d
      (tableStmt c (tables ! k)) = Some err \<longrightarrow>
      f e (Some d) w =
        (Some (TableFailed (tableVerb c) (tables ! k) err),
         w @ [Exec d (disableStmt c), RawScan d (tablesQuery c)] @
           map (\<lambda>t. Exec d (tableStmt c t)) (take (k + 1) tables)) \<and>
      Exec d (enableStmt c) \<notin>
        set ([Exec d (disableStmt c), RawScan d (tablesQuery c)] @
             map (\<lambda>t. Exec d (tableStmt c t)) (take (k + 1) tables))) \<and>
   (execErr e w d (disableStmt c) = None \<and>
    rawScan e (w @ [Exec d (disableStmt c)]) d (tablesQuery c) = Inr tables \<and>
    (\<forall>j<length tables.
        execErr e (w @ [Exec d (disableStmt c), RawScan d (tablesQuery c)] @
                     map (\<lambda>t. Exec d (tableStmt c t)) (take j tables)) d
          (tableStmt c (tables ! j)) = None) \<and>
    execErr e (w @ [Exec d (disableStmt c), RawScan d (tablesQuery c)] @
                 map (\<lambda>t. Exec d (tableStmt c t)) tables) d (enableStmt c) = None \<longrightarrow>
      f e (Some d) w =
        (None,
         w @ [Exec d (disableStmt c), RawScan d (tablesQuery c)] @
           map (\<lambda>t. Exec d (tableStmt c t)) tables @ [Exec d (enableStmt c)]))"
proof (intro conjI impI)
  let ?w2 = "w @ [Exec d (disableStmt c), RawScan d (tablesQuery c)]"
  assume a: "execErr e w d (disableStmt c) = None \<and>
    rawScan e (w @ [Exec d (disableStmt c)]) d (tablesQuery c) = Inr tables \<and>
    k < length tables \<and>
    (\<forall>j<k. execErr e (w @ [Exec d (disableStmt c), RawScan d (tablesQuery c)] @
                       map (\<lambda>t. Exec d (tableStmt c t)) (take j tables)) d
              (tableStmt c (tables ! j)) = None) \<and>
    execErr e (w @ [Exec d (disableStmt c), RawScan d (tablesQuery c)] @
                 map (\<lambda>t. Exec d (tableStmt c t)) (take k tables)) d
      (tableStmt c (tables ! k)) = Some err"
  have "table_loop e d c tables ?w2 =
         (Some (TableFailed (tableVerb c) (tables ! k) err),
          ?w2 @ map (\<lambda>t. Exec d (tableStmt c t)) (take (Suc k) tables))"
    using a by (intro table_loop_fail) simp_all
  then have "table_operation e c (Some d) w =
        (Some (TableFailed (tableVerb c) (tables ! k) err),
         w @ [Exec d (disableStmt c), RawScan d (tablesQuery c)] @
           map (\<lambda>t. Exec d (tableStmt c t)) (take (k + 1) tables))"
    using a by (simp add: table_operation_def)
  then show "f e (Some d) w =
        (Some (TableFailed (tableVerb c) (tables ! k) err),
         w @ [Exec d (disableStmt c), RawScan d (tablesQuery c)] @
           map (\<lambda>t. Exec d (tableStmt c t)) (take (k + 1) tables))"
    using dialect_operations_shape(1) [OF assms] by simp
  show "Exec d (enableStmt c) \<notin>
        set ([Exec d (disableStmt c), RawScan d (tablesQuery c)] @
             map (\<lambda>t. Exec d (tableStmt c t)) (take (k + 1) tables))"
  proof -
    have "\<forall>t. tableStmt c t \<noteq> enableStmt c"
      using dialect_operations_shape(2) [OF assms] by blast
    moreover have "disableStmt c \<noteq> enableStmt c"
      by (rule dialect_operations_shape(3) [OF assms])
    ultimately show ?thesis by auto
  qed
next
  let ?w2 = "w @ [Exec d (disableStmt c), RawScan d (tablesQuery c)]"
  assume a: "execErr e w d (disableStmt c) = None \<and>
    rawScan e (w @ [Exec d (disableStmt c)]) d (tablesQuery c) = Inr tables \<and>
    (\<forall>j<length tables.
        execErr e (w @ [Exec d (disableStmt c), RawScan d (tablesQuery c)] @
                     map (\<lambda>t. Exec d (tableStmt c t)) (take j tables)) d
          (tableStmt c (tables ! j)) = None) \<and>
    execErr e (w @ [Exec d (disableStmt c), RawScan d (tablesQuery c)] @
                 map (\<lambda>t. Exec d (tableStmt c t)) tables) d (enableStmt c) = None"
  have "table_loop e d c tables ?w2 = (None, ?w2 @ map (\<lambda>t. Exec d (tableStmt c t)) tables)"
    using a by (intro table_loop_ok) simp_all
  then have "table_operation e c (Some d) w =
        (None,
         w @ [Exec d (disableStmt c), RawScan d (tablesQuery c)] @
           map (\<lambda>t. Exec d (tableStmt c t)) tables @ [Exec d (enableStmt c)])"
    using a by (simp add: table_operation_def)
  then show "f e (Some d) w =
        (None,
         w @ [Exec d (disableStmt c), RawScan d (tablesQuery c)] @
           map (\<lambda>t. Exec d (tableStmt c t)) tables @ [Exec d (enableStmt c)])"
    using dialect_operations_shape(1) [OF assms] by simp
qed

theorem C7_dialect_operations_witness:
  "FlushMySQLTables example_collaborators (Some 1) [] =
     (Some (TableFailed ''flush'' (runes ''orders'') (ExtError ''boom'')),
      [Exec 1 (runes ''SET FOREIGN_KEY_CHECKS = 0''), RawScan 1 (runes ''SHOW TABLES''),
       Exec 1 (runes ''TRUNCATE TABLE users''), Exec 1 (runes ''TRUNCATE TABLE orders'')]) \<and>
   DropMySQLTables example_collaborators (Some 1) [] =
     (None,
      [Exec 1 (runes ''SET FOREIGN_KEY_CHECKS = 0''), RawScan 1 (runes ''SHOW TABLES''),
       Exec 1 (runes ''DROP TABLE IF EXISTS users''), Exec 1 (runes ''DROP TABLE IF EXISTS orders''),
       Exec 1 (runes ''DROP TABLE IF EXISTS items''), Exec 1 (runes ''SET FOREIGN_KEY_CHECKS = 1'')])"
proof -
  let ?e = example_collaborators
  let ?ts = "[runes ''users'', runes ''orders'', runes ''items'']"
  have m1: "(FlushMySQLTables, FlushMySQL) \<in> set dialect_operations"
    by (simp add: dialect_operations_def)
  have m2: "(DropMySQLTables, DropMySQL) \<in> set dialect_operations"
    by (simp add: dialect_operations_def)
  have 1: "execErr ?e [] 1 (disableStmt FlushMySQL) = None \<and>
    rawScan ?e ([] @ [Exec 1 (disableStmt FlushMySQL)]) 1 (tablesQuery FlushMySQL) = Inr ?ts \<and>
    1 < length ?ts \<and>
    (\<forall>j<1. execErr ?e ([] @ [Exec 1 (disableStmt FlushMySQL), RawScan 1 (tablesQuery FlushMySQL)] @
                       map (\<lambda>t. Exec 1 (tableStmt FlushMySQL t)) (take j ?ts)) 1
              (tableStmt FlushMySQL (?ts ! j)) = None) \<and>
    execErr ?e ([] @ [Exec 1 (disableStmt FlushMySQL), RawScan 1 (tablesQuery FlushMySQL)] @
                 map (\<lambda>t. Exec 1 (tableStmt FlushMySQL t)) (take 1 ?ts)) 1
      (tableStmt FlushMySQL (?ts ! 1)) = Some (ExtError ''boom'')"
    by (simp add: example_collaborators_def FlushMySQL_def runes_def)
  have 2: "execErr ?e [] 1 (disableStmt DropMySQL) = None \<and>
    rawScan ?e ([] @ [Exec 1 (disableStmt DropMySQL)]) 1 (tablesQuery DropMySQL) = Inr ?ts \<and>
    (\<forall>j<length ?ts.
        execErr ?e ([] @ [Exec 1 (disableStmt DropMySQL), RawScan 1 (tablesQuery DropMySQL)] @
                     map (\<lambda>t. Exec 1 (tableStmt DropMySQL t)) (take j ?ts)) 1
          (tableStmt DropMySQL (?ts ! j)) = None) \<and>
    execErr ?e ([] @ [Exec 1 (disableStmt DropMySQL), RawScan 1 (tablesQuery DropMySQL)] @
                 map (\<lambda>t. Exec 1 (tableStmt DropMySQL t)) ?ts) 1 (enableStmt DropMySQL) = None"
    by (simp add: example_collaborators_def DropMySQL_def runes_def All_less_Suc)
  have a: "FlushMySQLTables ?e (Some 1) [] =
        (Some (TableFailed (tableVerb FlushMySQL) (?ts ! 1) (ExtError ''boom'')),
         [] @ [Exec 1 (disableStmt FlushMySQL), RawScan 1 (tablesQuery FlushMySQL)] @
           map (\<lambda>t. Exec 1 (tableStmt FlushMySQL t)) (take (1 + 1) ?ts))"
    by (rule C7_dialect_operations [OF m1, of ?e "[]" 1 ?ts 1 "ExtError ''boom''",
          THEN conjunct1, THEN mp, OF 1, THEN conjunct1])
  have b: "DropMySQLTables ?e (Some 1) [] =
        (None,
         [] @ [Exec 1 (disableStmt DropMySQL), RawScan 1 (tablesQuery DropMySQL)] @
           map (\<lambda>t. Exec 1 (tableStmt DropMySQL t)) ?ts @ [Exec 1 (enableStmt DropMySQL)])"
    by (rule C7_dialect_operations [OF m2, of ?e "[]" 1 ?ts,
          THEN conjunct2, THEN mp, OF 2])
  have a': "FlushMySQLTables example_collaborators (Some 1) [] =
     (Some (TableFailed ''flush'' (runes ''orders'') (ExtError ''boom'')),
      [Exec 1 (runes ''SET FOREIGN_KEY_CHECKS = 0''), RawScan 1 (runes ''SHOW TABLES''),
       Exec 1 (runes ''TRUNCATE TABLE users''), Exec 1 (runes ''TRUNCATE TABLE orders'')])"
    using a by (simp add: FlushMySQL_def numeral_2_eq_2 runes_def)
  have b': "DropMySQLTables example_collaborators (Some 1) [] =
     (None,
      [Exec 1 (runes ''SET FOREIGN_KEY_CHECKS = 0''), RawScan 1 (runes ''SHOW TABLES''),
       Exec 1 (runes ''DROP TABLE IF EXISTS users''), Exec 1 (runes ''DROP TABLE IF EXISTS orders''),
       Exec 1 (runes ''DROP TABLE IF EXISTS items''), Exec 1 (runes ''SET FOREIGN_KEY_CHECKS = 1'')])"
    using b by (simp add: DropMySQL_def runes_def)
  show ?thesis
    using a' b' by (rule conjI)
qed

lemma CloseAll_loop_no_failure:
  assumes "\<forall>w d. sqlDBErr e w d = None" and "\<forall>w d. closeErr e w d = None"
  shows "CloseAll_loop e conns w =
         (None, w @ concat (map (\<lambda>d. [SqlDBOf d, SqlClose d]) (List.map_filter id conns)))"
proof (induction conns arbitrary: w)
  case Nil
  then show ?case by (simp add: List.map_filter_def)
next
  case (Cons c conns)
  then show ?case using assms by (cases c) (simp_all add: List.map_filter_def)
qed

lemma CloseAll_no_failure:
  assumes "\<forall>w d. sqlDBErr e w d = None" and "\<forall>w d. closeErr e w d = None"
  shows "CloseAll e order m w =
         (None, m\<lparr>connections := Map.empty\<rparr>,
          w @ concat (map (\<lambda>d. [SqlDBOf d, SqlClose d])
                       (List.map_filter id (List.map_filter (connections m) order))))"
  using CloseAll_loop_no_failure [OF assms] by (simp add: CloseAll_def)

text \<open>
  Claim C6, on the code.  With the clients of \<open>a\<close> and \<open>b\<close> cached (after
  \<^verbatim>\<open>GetConnection\<close> for each), a loop that visits \<open>a\<close> before \<open>b\<close>, and a close of the
  client of \<open>b\<close> that fails: \<^verbatim>\<open>CloseAll\<close> closes the client of \<open>a\<close>, returns the error of
  \<open>b\<close> and leaves both entries cached, and \<^verbatim>\<open>Close\<close> for \<open>a\<close> then closes the client of
  \<open>a\<close> a second time.  When no close fails the map is emptied.
\<close>

theorem C6_CloseAll_then_Close_closes_twice:
  "GetConnection (two_names Map.empty) [] ''a'' =
     (Inr (Some 1), two_names [''a'' \<mapsto> Some 1], [FactoryCalled ''sqlite'' ''a.db'']) \<and>
   GetConnection (two_names [''a'' \<mapsto> Some 1]) [FactoryCalled ''sqlite'' ''a.db''] ''b'' =
     (Inr (Some 2), two_names [''a'' \<mapsto> Some 1, ''b'' \<mapsto> Some 2],
      [FactoryCalled ''sqlite'' ''a.db'', FactoryCalled ''sqlite'' ''b.db'']) \<and>
   CloseAll example_collaborators [''a'', ''b''] (two_names [''a'' \<mapsto> Some 1, ''b'' \<mapsto> Some 2]) [] =
     (Some (External (ExtError ''busy'')), two_names [''a'' \<mapsto> Some 1, ''b'' \<mapsto> Some 2],
      [SqlDBOf 1, SqlClose 1, SqlDBOf 2, SqlClose 2]) \<and>
   Close example_collaborators (two_names [''a'' \<mapsto> Some 1, ''b'' \<mapsto> Some 2])
     [SqlDBOf 1, SqlClose 1, SqlDBOf 2, SqlClose 2] ''a'' =
     (None, two_names ([''a'' \<mapsto> Some 1, ''b'' \<mapsto> Some 2](''a'' := None)),
      [SqlDBOf 1, SqlClose 1, SqlDBOf 2, SqlClose 2, SqlDBOf 1, SqlClose 1]) \<and>
   CloseAll example_collaborators [''a''] (two_names [''a'' \<mapsto> Some 1]) [] =
     (None, two_names Map.empty, [SqlDBOf 1, SqlClose 1])"
  by (simp add: GetConnection_def CloseAll_def Close_def two_names_def example_collaborators_def
      List.map_filter_def)

end
